theory Spec2Isabelle
  imports Main
begin

section \<open>Go strings and the library functions main.go calls on them\<close>

text \<open>
  A Go string is a sequence of bytes; \<^typ>\<open>string\<close> (a list of 8-bit characters) is
  exactly that. The functions of this section are the ones of the Go standard library
  that \<^verbatim>\<open>main.go\<close> calls on strings: \<^verbatim>\<open>strings.HasPrefix\<close>,
  \<^verbatim>\<open>strings.TrimPrefix\<close>, \<^verbatim>\<open>strings.TrimSpace\<close> and
  \<^verbatim>\<open>filepath.Base\<close> (on a Unix target, where the only separator is the slash and
  there is no volume name).
\<close>

definition HasPrefix :: "string \<Rightarrow> string \<Rightarrow> bool" where
  "HasPrefix s pre = (length pre \<le> length s \<and> take (length pre) s = pre)"

definition TrimPrefix :: "string \<Rightarrow> string \<Rightarrow> string" where
  "TrimPrefix s pre = (if HasPrefix s pre then drop (length pre) s else s)"

text \<open>
  \<^verbatim>\<open>strings.TrimSpace\<close> removes the leading and the trailing white space "as defined
  by Unicode": the runes for which \<^verbatim>\<open>unicode.IsSpace\<close> holds, read from the
  UTF-8 bytes of the string. These runes are U+0009 to U+000D, U+0020, U+0085, U+00A0,
  U+1680, U+2000 to U+200A, U+2028, U+2029, U+202F, U+205F and U+3000. Go's decoder
  accepts only the shortest encoding of a rune and reads a byte that starts no valid
  encoding as U+FFFD, which is no space; so the string starts (ends) with a space rune
  exactly when it starts (ends) with one of the byte sequences below.
\<close>

definition space_encodings :: "string list" where
  "space_encodings =
     [[CHR 0x09], [CHR 0x0A], [CHR 0x0B], [CHR 0x0C], [CHR 0x0D], [CHR 0x20],
      [CHR 0xC2, CHR 0x85], [CHR 0xC2, CHR 0xA0],
      [CHR 0xE1, CHR 0x9A, CHR 0x80],
      [CHR 0xE2, CHR 0x80, CHR 0x80], [CHR 0xE2, CHR 0x80, CHR 0x81],
      [CHR 0xE2, CHR 0x80, CHR 0x82], [CHR 0xE2, CHR 0x80, CHR 0x83],
      [CHR 0xE2, CHR 0x80, CHR 0x84], [CHR 0xE2, CHR 0x80, CHR 0x85],
      [CHR 0xE2, CHR 0x80, CHR 0x86], [CHR 0xE2, CHR 0x80, CHR 0x87],
      [CHR 0xE2, CHR 0x80, CHR 0x88], [CHR 0xE2, CHR 0x80, CHR 0x89],
      [CHR 0xE2, CHR 0x80, CHR 0x8A],
      [CHR 0xE2, CHR 0x80, CHR 0xA8], [CHR 0xE2, CHR 0x80, CHR 0xA9],
      [CHR 0xE2, CHR 0x80, CHR 0xAF],
      [CHR 0xE2, CHR 0x81, CHR 0x9F],
      [CHR 0xE3, CHR 0x80, CHR 0x80]]"

text \<open>The width in bytes of the space rune a string starts with; 0 when it starts with none.\<close>

definition leading_space :: "string \<Rightarrow> nat" where
  "leading_space s =
     (case filter (HasPrefix s) space_encodings of [] \<Rightarrow> 0 | e # _ \<Rightarrow> length e)"

text \<open>The same at the end of the string, which is the start of the reversed string.\<close>

definition trailing_space :: "string \<Rightarrow> nat" where
  "trailing_space s =
     (case filter (\<lambda>e. HasPrefix (rev s) (rev e)) space_encodings of
        [] \<Rightarrow> 0 | e # _ \<Rightarrow> length e)"

function TrimLeftSpace :: "string \<Rightarrow> string" where
  "TrimLeftSpace s =
     (if leading_space s = 0 then s else TrimLeftSpace (drop (leading_space s) s))"
  by pat_completeness auto

function TrimRightSpace :: "string \<Rightarrow> string" where
  "TrimRightSpace s =
     (if trailing_space s = 0 then s
      else TrimRightSpace (take (length s - trailing_space s) s))"
  by pat_completeness auto

lemma leading_space_le: "leading_space s \<le> length s"
proof (cases "filter (HasPrefix s) space_encodings")
  case Nil
  then show ?thesis by (simp add: leading_space_def)
next
  case (Cons e es)
  then have "e \<in> set (filter (HasPrefix s) space_encodings)" by simp
  then have "HasPrefix s e" by simp
  then have "length e \<le> length s" by (simp add: HasPrefix_def)
  with Cons show ?thesis by (simp add: leading_space_def)
qed

lemma trailing_space_le: "trailing_space s \<le> length s"
proof (cases "filter (\<lambda>e. HasPrefix (rev s) (rev e)) space_encodings")
  case Nil
  then show ?thesis by (simp add: trailing_space_def)
next
  case (Cons e es)
  then have "e \<in> set (filter (\<lambda>e. HasPrefix (rev s) (rev e)) space_encodings)" by simp
  then have "HasPrefix (rev s) (rev e)" by simp
  then have "length e \<le> length s" by (simp add: HasPrefix_def)
  with Cons show ?thesis by (simp add: trailing_space_def)
qed

termination TrimLeftSpace
proof (relation "measure length")
  show "wf (measure length)" by simp
next
  fix s :: string
  assume "leading_space s \<noteq> 0"
  moreover have "leading_space s \<le> length s" by (rule leading_space_le)
  ultimately show "(drop (leading_space s) s, s) \<in> measure length" by simp
qed

termination TrimRightSpace
proof (relation "measure length")
  show "wf (measure length)" by simp
next
  fix s :: string
  assume "trailing_space s \<noteq> 0"
  moreover have "trailing_space s \<le> length s" by (rule trailing_space_le)
  ultimately show "(take (length s - trailing_space s) s, s) \<in> measure length" by simp
qed

definition TrimSpace :: "string \<Rightarrow> string" where
  "TrimSpace s = TrimRightSpace (TrimLeftSpace s)"

text \<open>
  \<^verbatim>\<open>filepath.Base\<close>: the last element of the path. An empty path gives a dot;
  trailing slashes are removed before the last element is taken; a path of slashes only
  gives a single slash.
\<close>

definition strip_trailing_slashes :: "string \<Rightarrow> string" where
  "strip_trailing_slashes p = rev (dropWhile (\<lambda>c. c = CHR ''/'') (rev p))"

definition last_element :: "string \<Rightarrow> string" where
  "last_element p = rev (takeWhile (\<lambda>c. c \<noteq> CHR ''/'') (rev p))"

definition Base :: "string \<Rightarrow> string" where
  "Base p =
     (if p = [] then ''.''
      else let q = last_element (strip_trailing_slashes p)
           in if q = [] then ''/'' else q)"

section \<open>UTF-8, as \<^verbatim>\<open>unicode/utf8\<close> reads and writes it\<close>

definition byte :: "char \<Rightarrow> int" where
  "byte c = of_char c"

definition in_range :: "int \<Rightarrow> int \<Rightarrow> char \<Rightarrow> bool" where
  "in_range lo hi c = (lo \<le> byte c \<and> byte c \<le> hi)"

definition continuation :: "char \<Rightarrow> bool" where
  "continuation c = in_range 0x80 0xBF c"

text \<open>
  \<^verbatim>\<open>utf8.DecodeRune\<close> on a string that starts with a byte of 0x80 or more: the width
  of the rune the string starts with, and 0 where the decoder answers
  \<^verbatim>\<open>(RuneError, 1)\<close>. The ranges are those of the decoder's table: the second byte
  of a rune is restricted after the lead bytes E0, ED, F0 and F4, which excludes the
  overlong encodings, the surrogates and the runes above U+10FFFF.
\<close>

fun rune_width :: "string \<Rightarrow> nat" where
  "rune_width (a # b # rest) =
     (if in_range 0xC2 0xDF a then (if continuation b then 2 else 0)
      else (case rest of
        [] \<Rightarrow> 0
      | c # rest' \<Rightarrow>
          (if byte a = 0xE0 then (if in_range 0xA0 0xBF b \<and> continuation c then 3 else 0)
           else if in_range 0xE1 0xEC a \<or> in_range 0xEE 0xEF a then
             (if continuation b \<and> continuation c then 3 else 0)
           else if byte a = 0xED then
             (if in_range 0x80 0x9F b \<and> continuation c then 3 else 0)
           else (case rest' of
             [] \<Rightarrow> 0
           | d # _ \<Rightarrow>
               (if byte a = 0xF0 then
                  (if in_range 0x90 0xBF b \<and> continuation c \<and> continuation d then 4 else 0)
                else if in_range 0xF1 0xF3 a then
                  (if continuation b \<and> continuation c \<and> continuation d then 4 else 0)
                else if byte a = 0xF4 then
                  (if in_range 0x80 0x8F b \<and> continuation c \<and> continuation d then 4 else 0)
                else 0)))))"
| "rune_width _ = 0"

definition ReplacementChar :: int where
  "ReplacementChar = 0xFFFD"

text \<open>
  \<^verbatim>\<open>utf8.EncodeRune\<close>: a surrogate or a rune above U+10FFFF is written as U+FFFD.
\<close>

definition cont_byte :: "int \<Rightarrow> char" where
  "cont_byte n = char_of (0x80 + n mod 0x40)"

definition EncodeRune :: "int \<Rightarrow> string" where
  "EncodeRune r =
     (if r \<le> 0x7F then [char_of r]
      else if r \<le> 0x7FF then [char_of (0xC0 + r div 0x40), cont_byte r]
      else if r > 0x10FFFF \<or> (0xD800 \<le> r \<and> r \<le> 0xDFFF) then
        [CHR 0xEF, CHR 0xBF, CHR 0xBD]
      else if r \<le> 0xFFFF then
        [char_of (0xE0 + r div 0x1000), cont_byte (r div 0x40), cont_byte r]
      else [char_of (0xF0 + r div 0x40000), cont_byte (r div 0x1000),
            cont_byte (r div 0x40), cont_byte r])"

section \<open>JSON, as \<^verbatim>\<open>encoding/json\<close> reads it\<close>

text \<open>
  \<^verbatim>\<open>parseStackID\<close> hands its bytes to \<^verbatim>\<open>json.Unmarshal\<close>. Unmarshal first
  runs the package's scanner over all the bytes (\<^verbatim>\<open>checkValid\<close>) and returns a
  \<^verbatim>\<open>SyntaxError\<close> when the scanner refuses them; only then it walks the bytes again
  and stores what it finds into the target. The scanner is a state machine over single
  bytes with a stack of open arrays and objects; it is modelled state by state under the
  names of \<^verbatim>\<open>scanner.go\<close>. The model builds the value while it scans: each entry
  of the stack carries the elements read so far.
\<close>

datatype json =
    JNull
  | JBool bool
  | JNumber string
  | JString string
  | JArray "json list"
  | JObject "(string \<times> json) list"

subsection \<open>String literals: \<^verbatim>\<open>unquote\<close>\<close>

definition hex_digit :: "char \<Rightarrow> int option" where
  "hex_digit c =
     (if in_range 0x30 0x39 c then Some (byte c - 0x30)
      else if in_range 0x61 0x66 c then Some (byte c - 0x61 + 10)
      else if in_range 0x41 0x46 c then Some (byte c - 0x41 + 10)
      else None)"

text \<open>
  \<^verbatim>\<open>getu4\<close>: the rune of a \<^verbatim>\<open>\uXXXX\<close> escape at the start of the string, if
  there is one.
\<close>

fun getu4 :: "string \<Rightarrow> int option" where
  "getu4 (bs # u # a # b # c # d # _) =
     (if bs = CHR 0x5C \<and> u = CHR ''u'' then
        (case (hex_digit a, hex_digit b, hex_digit c, hex_digit d) of
           (Some x, Some y, Some z, Some w) \<Rightarrow> Some (((x * 16 + y) * 16 + z) * 16 + w)
         | _ \<Rightarrow> None)
      else None)"
| "getu4 _ = None"

definition IsSurrogate :: "int \<Rightarrow> bool" where
  "IsSurrogate r = (0xD800 \<le> r \<and> r < 0xE000)"

text \<open>\<^verbatim>\<open>utf16.DecodeRune\<close>, with the absent second escape (-1 in Go) as \<open>None\<close>.\<close>

definition utf16_DecodeRune :: "int \<Rightarrow> int option \<Rightarrow> int" where
  "utf16_DecodeRune r1 r2 =
     (case r2 of
        None \<Rightarrow> ReplacementChar
      | Some r2' \<Rightarrow>
          if 0xD800 \<le> r1 \<and> r1 < 0xDC00 \<and> 0xDC00 \<le> r2' \<and> r2' < 0xE000
          then (r1 - 0xD800) * 0x400 + (r2' - 0xDC00) + 0x10000
          else ReplacementChar)"

text \<open>
  One round of the loop of \<^verbatim>\<open>unquoteBytes\<close>, on the bytes between the quotes of
  a literal: the bytes written and the input left; \<open>None\<close> is Go's
  \<^verbatim>\<open>ok = false\<close>. An escape is replaced by what it stands for, a surrogate pair
  of \<^verbatim>\<open>\u\<close> escapes by its rune, a surrogate with no partner by U+FFFD; a byte that
  starts no valid UTF-8 encoding is replaced by U+FFFD.
\<close>

definition unquote_escape :: "char \<Rightarrow> string \<Rightarrow> (string \<times> string) option" where
  "unquote_escape e s' =
     (if e = CHR 0x22 \<or> e = CHR 0x5C \<or> e = CHR ''/'' \<or> e = CHR 0x27 then Some ([e], s')
      else if e = CHR ''b'' then Some ([CHR 0x08], s')
      else if e = CHR ''f'' then Some ([CHR 0x0C], s')
      else if e = CHR ''n'' then Some ([CHR 0x0A], s')
      else if e = CHR ''r'' then Some ([CHR 0x0D], s')
      else if e = CHR ''t'' then Some ([CHR 0x09], s')
      else if e = CHR ''u'' then
        (case getu4 (CHR 0x5C # e # s') of
           None \<Rightarrow> None
         | Some rr \<Rightarrow>
             if IsSurrogate rr then
               (let dec = utf16_DecodeRune rr (getu4 (drop 4 s')) in
                if dec \<noteq> ReplacementChar then Some (EncodeRune dec, drop 10 s')
                else Some (EncodeRune ReplacementChar, drop 4 s'))
             else Some (EncodeRune rr, drop 4 s'))
      else None)"

definition unquote_step :: "char \<Rightarrow> string \<Rightarrow> (string \<times> string) option" where
  "unquote_step c s =
     (if c = CHR 0x5C then
        (case s of [] \<Rightarrow> None | e # s' \<Rightarrow> unquote_escape e s')
      else if c = CHR 0x22 \<or> byte c < 0x20 then None
      else if byte c < 0x80 then Some ([c], s)
      else if rune_width (c # s) = 0 then Some (EncodeRune ReplacementChar, s)
      else Some (take (rune_width (c # s)) (c # s), drop (rune_width (c # s) - 1) s))"

lemma unquote_escape_shorter:
  "unquote_escape e s' = Some (out, rest) \<Longrightarrow> length rest \<le> length s'"
  unfolding unquote_escape_def Let_def
  by (simp split: if_splits option.splits; fastforce)

lemma unquote_step_shorter:
  "unquote_step c s = Some (out, rest) \<Longrightarrow> length rest \<le> length s"
proof (cases "c = CHR 0x5C")
  case True
  assume "unquote_step c s = Some (out, rest)"
  with True obtain e s' where s: "s = e # s'" and "unquote_escape e s' = Some (out, rest)"
    by (auto simp: unquote_step_def split: list.splits)
  then have "length rest \<le> length s'" by (auto dest: unquote_escape_shorter)
  with s show ?thesis by simp
next
  case False
  assume "unquote_step c s = Some (out, rest)"
  with False show ?thesis
    by (auto simp: unquote_step_def split: if_splits)
qed

function unquote :: "string \<Rightarrow> string option" where
  "unquote [] = Some []"
| "unquote (c # s) =
     (case unquote_step c s of
        None \<Rightarrow> None
      | Some (out, rest) \<Rightarrow> map_option ((@) out) (unquote rest))"
  by pat_completeness auto
termination
proof (relation "measure length")
  show "wf (measure length)" by simp
next
  fix c :: char and s x2 out rest
  assume "unquote_step c s = Some x2" and "(out, rest) = x2"
  then have "length rest \<le> length s" by (auto dest: unquote_step_shorter)
  then show "(rest, c # s) \<in> measure length" by simp
qed

subsection \<open>The scanner of \<^verbatim>\<open>scanner.go\<close>\<close>

text \<open>
  An entry of the parse stack is one of Go's three constants; here it also holds what
  has been read of the array or object it stands for: the members so far, and for
  \<open>parseObjectValue\<close> the key whose value is being read.
\<close>

datatype parse_state =
    parseObjectKey "(string \<times> json) list"
  | parseObjectValue string "(string \<times> json) list"
  | parseArrayValue "json list"

datatype step_fn =
    stateBeginValueOrEmpty | stateBeginValue | stateBeginStringOrEmpty | stateBeginString
  | stateEndValue | stateEndTop
  | stateInString | stateInStringEsc
  | stateInStringEscU | stateInStringEscU1 | stateInStringEscU12 | stateInStringEscU123
  | stateNeg | state1 | state0 | stateDot | stateDot0 | stateE | stateESign | stateE0
  | stateT | stateTr | stateTru
  | stateF | stateFa | stateFal | stateFals
  | stateN | stateNu | stateNul
  | stateError

text \<open>
  The scanner: \<open>step\<close>, \<open>parseState\<close> (top of the stack first), \<open>endTop\<close> and
  \<open>err\<close> (the context of the syntax error) are Go's fields; \<open>lit\<close> holds the bytes
  of the literal being read and \<open>completed\<close> the value that has just ended and is not yet
  part of an array or object.
\<close>

record scanner =
  step :: step_fn
  parseState :: "parse_state list"
  endTop :: bool
  err :: "string option"
  lit :: string
  completed :: "json option"

definition reset :: scanner where
  "reset = \<lparr>step = stateBeginValue, parseState = [], endTop = False, err = None,
            lit = [], completed = None\<rparr>"

definition isSpace :: "char \<Rightarrow> bool" where
  "isSpace c = (c = CHR 0x20 \<or> c = CHR 0x09 \<or> c = CHR 0x0D \<or> c = CHR 0x0A)"

definition isDigit :: "char \<Rightarrow> bool" where
  "isDigit c = in_range 0x30 0x39 c"

definition isHex :: "char \<Rightarrow> bool" where
  "isHex c = (hex_digit c \<noteq> None)"

definition scan_error :: "scanner \<Rightarrow> string \<Rightarrow> scanner" where
  "scan_error s context = s\<lparr>step := stateError, err := Some context\<rparr>"

definition maxNestingDepth :: int where
  "maxNestingDepth = 10000"

definition pushParseState :: "scanner \<Rightarrow> parse_state \<Rightarrow> scanner" where
  "pushParseState s newParseState =
     (let s' = s\<lparr>parseState := newParseState # parseState s, completed := None\<rparr>
      in if int (length (parseState s')) \<le> maxNestingDepth then s'
         else scan_error s' ''exceeded max depth'')"

definition popParseState :: "scanner \<Rightarrow> json \<Rightarrow> scanner" where
  "popParseState s v =
     (let ps = tl (parseState s)
      in if ps = [] then s\<lparr>parseState := ps, step := stateEndTop, endTop := True,
                             completed := Some v\<rparr>
         else s\<lparr>parseState := ps, step := stateEndValue, completed := Some v\<rparr>)"

text \<open>A literal goes on: its byte is kept and the scanner moves to the next state.\<close>

definition continue :: "scanner \<Rightarrow> char \<Rightarrow> step_fn \<Rightarrow> scanner" where
  "continue s c next_step = s\<lparr>step := next_step, lit := lit s @ [c]\<rparr>"

text \<open>A literal ends: its value is complete, and an array or object may take it next.\<close>

definition finish :: "scanner \<Rightarrow> json \<Rightarrow> scanner" where
  "finish s v = s\<lparr>step := stateEndValue, lit := [], completed := Some v\<rparr>"

definition add_member ::
  "string \<Rightarrow> json option \<Rightarrow> (string \<times> json) list \<Rightarrow> (string \<times> json) list" where
  "add_member k v ms = (case v of None \<Rightarrow> ms | Some v' \<Rightarrow> ms @ [(k, v')])"

definition add_element :: "json option \<Rightarrow> json list \<Rightarrow> json list" where
  "add_element v es = (case v of None \<Rightarrow> es | Some v' \<Rightarrow> es @ [v'])"

definition phasePanicMsg :: string where
  "phasePanicMsg = ''JSON decoder out of sync - data changing underfoot?''"

definition stateEndTop_fn :: "scanner \<Rightarrow> char \<Rightarrow> scanner" where
  "stateEndTop_fn s c = (if \<not> isSpace c then scan_error s ''after top-level value'' else s)"

definition stateEndValue_fn :: "scanner \<Rightarrow> char \<Rightarrow> scanner" where
  "stateEndValue_fn s c =
     (case parseState s of
        [] \<Rightarrow> stateEndTop_fn (s\<lparr>step := stateEndTop, endTop := True\<rparr>) c
      | p # ps \<Rightarrow>
          (if isSpace c then s\<lparr>step := stateEndValue\<rparr>
           else (case p of
             parseObjectKey ms \<Rightarrow>
               (if c = CHR '':'' then
                  (case completed s of
                     Some (JString k) \<Rightarrow>
                       s\<lparr>parseState := parseObjectValue k ms # ps, step := stateBeginValue,
                         completed := None\<rparr>
                   | _ \<Rightarrow> scan_error s phasePanicMsg)
                else scan_error s ''after object key'')
           | parseObjectValue k ms \<Rightarrow>
               (if c = CHR '','' then
                  s\<lparr>parseState := parseObjectKey (add_member k (completed s) ms) # ps,
                    step := stateBeginString, completed := None\<rparr>
                else if c = CHR ''}'' then
                  popParseState s (JObject (add_member k (completed s) ms))
                else scan_error s ''after object key:value pair'')
           | parseArrayValue es \<Rightarrow>
               (if c = CHR '','' then
                  s\<lparr>parseState := parseArrayValue (add_element (completed s) es) # ps,
                    step := stateBeginValue, completed := None\<rparr>
                else if c = CHR '']'' then
                  popParseState s (JArray (add_element (completed s) es))
                else scan_error s ''after array element''))))"

definition stateBeginValue_fn :: "scanner \<Rightarrow> char \<Rightarrow> scanner" where
  "stateBeginValue_fn s c =
     (if isSpace c then s
      else if c = CHR ''{'' then
        pushParseState (s\<lparr>step := stateBeginStringOrEmpty\<rparr>) (parseObjectKey [])
      else if c = CHR ''['' then
        pushParseState (s\<lparr>step := stateBeginValueOrEmpty\<rparr>) (parseArrayValue [])
      else if c = CHR 0x22 then s\<lparr>step := stateInString, lit := []\<rparr>
      else if c = CHR ''-'' then s\<lparr>step := stateNeg, lit := [c]\<rparr>
      else if c = CHR ''0'' then s\<lparr>step := state0, lit := [c]\<rparr>
      else if c = CHR ''t'' then s\<lparr>step := stateT, lit := [c]\<rparr>
      else if c = CHR ''f'' then s\<lparr>step := stateF, lit := [c]\<rparr>
      else if c = CHR ''n'' then s\<lparr>step := stateN, lit := [c]\<rparr>
      else if in_range 0x31 0x39 c then s\<lparr>step := state1, lit := [c]\<rparr>
      else scan_error s ''looking for beginning of value'')"

definition stateBeginValueOrEmpty_fn :: "scanner \<Rightarrow> char \<Rightarrow> scanner" where
  "stateBeginValueOrEmpty_fn s c =
     (if isSpace c then s
      else if c = CHR '']'' then stateEndValue_fn s c
      else stateBeginValue_fn s c)"

definition stateBeginString_fn :: "scanner \<Rightarrow> char \<Rightarrow> scanner" where
  "stateBeginString_fn s c =
     (if isSpace c then s
      else if c = CHR 0x22 then s\<lparr>step := stateInString, lit := []\<rparr>
      else scan_error s ''looking for beginning of object key string'')"

definition stateBeginStringOrEmpty_fn :: "scanner \<Rightarrow> char \<Rightarrow> scanner" where
  "stateBeginStringOrEmpty_fn s c =
     (if isSpace c then s
      else if c = CHR ''}'' then
        (case parseState s of
           parseObjectKey ms # ps \<Rightarrow>
             stateEndValue_fn (s\<lparr>parseState := parseObjectValue [] ms # ps\<rparr>) c
         | _ \<Rightarrow> scan_error s phasePanicMsg)
      else stateBeginString_fn s c)"

definition stateInString_fn :: "scanner \<Rightarrow> char \<Rightarrow> scanner" where
  "stateInString_fn s c =
     (if c = CHR 0x22 then
        (case unquote (lit s) of
           Some str \<Rightarrow> finish s (JString str)
         | None \<Rightarrow> scan_error s phasePanicMsg)
      else if c = CHR 0x5C then continue s c stateInStringEsc
      else if byte c < 0x20 then scan_error s ''in string literal''
      else continue s c stateInString)"

definition stateInStringEsc_fn :: "scanner \<Rightarrow> char \<Rightarrow> scanner" where
  "stateInStringEsc_fn s c =
     (if c \<in> set [CHR ''b'', CHR ''f'', CHR ''n'', CHR ''r'', CHR ''t'', CHR 0x5C, CHR ''/'',
                   CHR 0x22]
      then continue s c stateInString
      else if c = CHR ''u'' then continue s c stateInStringEscU
      else scan_error s ''in string escape code'')"

definition stateInStringEscU_fn :: "step_fn \<Rightarrow> scanner \<Rightarrow> char \<Rightarrow> scanner" where
  "stateInStringEscU_fn next_step s c =
     (if isHex c then continue s c next_step
      else scan_error s ''in u hexadecimal character escape'')"

text \<open>
  Numbers. A byte that cannot go on the number ends it: the number is complete and the
  byte is read by \<open>stateEndValue\<close>.
\<close>

definition end_number :: "scanner \<Rightarrow> char \<Rightarrow> scanner" where
  "end_number s c = stateEndValue_fn (finish s (JNumber (lit s))) c"

definition stateNeg_fn :: "scanner \<Rightarrow> char \<Rightarrow> scanner" where
  "stateNeg_fn s c =
     (if c = CHR ''0'' then continue s c state0
      else if in_range 0x31 0x39 c then continue s c state1
      else scan_error s ''in numeric literal'')"

definition state0_fn :: "scanner \<Rightarrow> char \<Rightarrow> scanner" where
  "state0_fn s c =
     (if c = CHR ''.'' then continue s c stateDot
      else if c = CHR ''e'' \<or> c = CHR ''E'' then continue s c stateE
      else end_number s c)"

definition state1_fn :: "scanner \<Rightarrow> char \<Rightarrow> scanner" where
  "state1_fn s c = (if isDigit c then continue s c state1 else state0_fn s c)"

definition stateDot_fn :: "scanner \<Rightarrow> char \<Rightarrow> scanner" where
  "stateDot_fn s c =
     (if isDigit c then continue s c stateDot0
      else scan_error s ''after decimal point in numeric literal'')"

definition stateDot0_fn :: "scanner \<Rightarrow> char \<Rightarrow> scanner" where
  "stateDot0_fn s c =
     (if isDigit c then continue s c stateDot0
      else if c = CHR ''e'' \<or> c = CHR ''E'' then continue s c stateE
      else end_number s c)"

definition stateESign_fn :: "scanner \<Rightarrow> char \<Rightarrow> scanner" where
  "stateESign_fn s c =
     (if isDigit c then continue s c stateE0
      else scan_error s ''in exponent of numeric literal'')"

definition stateE_fn :: "scanner \<Rightarrow> char \<Rightarrow> scanner" where
  "stateE_fn s c =
     (if c = CHR ''+'' \<or> c = CHR ''-'' then continue s c stateESign
      else stateESign_fn s c)"

definition stateE0_fn :: "scanner \<Rightarrow> char \<Rightarrow> scanner" where
  "stateE0_fn s c = (if isDigit c then continue s c stateE0 else end_number s c)"

text \<open>
  The literals \<^verbatim>\<open>true\<close>, \<^verbatim>\<open>false\<close> and \<^verbatim>\<open>null\<close>: one state for each
  letter read; \<open>expect\<close> is the body they share.
\<close>

definition expect :: "char \<Rightarrow> step_fn \<Rightarrow> string \<Rightarrow> scanner \<Rightarrow> char \<Rightarrow> scanner" where
  "expect letter next_step context s c =
     (if c = letter then continue s c next_step else scan_error s context)"

definition expect_last :: "char \<Rightarrow> json \<Rightarrow> string \<Rightarrow> scanner \<Rightarrow> char \<Rightarrow> scanner" where
  "expect_last letter v context s c =
     (if c = letter then finish s v else scan_error s context)"

text \<open>\<open>s.step(s, c)\<close>: the function the field \<open>step\<close> holds, applied.\<close>

definition apply_step :: "scanner \<Rightarrow> char \<Rightarrow> scanner" where
  "apply_step s c =
     (case step s of
        stateBeginValueOrEmpty \<Rightarrow> stateBeginValueOrEmpty_fn s c
      | stateBeginValue \<Rightarrow> stateBeginValue_fn s c
      | stateBeginStringOrEmpty \<Rightarrow> stateBeginStringOrEmpty_fn s c
      | stateBeginString \<Rightarrow> stateBeginString_fn s c
      | stateEndValue \<Rightarrow> stateEndValue_fn s c
      | stateEndTop \<Rightarrow> stateEndTop_fn s c
      | stateInString \<Rightarrow> stateInString_fn s c
      | stateInStringEsc \<Rightarrow> stateInStringEsc_fn s c
      | stateInStringEscU \<Rightarrow> stateInStringEscU_fn stateInStringEscU1 s c
      | stateInStringEscU1 \<Rightarrow> stateInStringEscU_fn stateInStringEscU12 s c
      | stateInStringEscU12 \<Rightarrow> stateInStringEscU_fn stateInStringEscU123 s c
      | stateInStringEscU123 \<Rightarrow> stateInStringEscU_fn stateInString s c
      | stateNeg \<Rightarrow> stateNeg_fn s c
      | state1 \<Rightarrow> state1_fn s c
      | state0 \<Rightarrow> state0_fn s c
      | stateDot \<Rightarrow> stateDot_fn s c
      | stateDot0 \<Rightarrow> stateDot0_fn s c
      | stateE \<Rightarrow> stateE_fn s c
      | stateESign \<Rightarrow> stateESign_fn s c
      | stateE0 \<Rightarrow> stateE0_fn s c
      | stateT \<Rightarrow> expect (CHR ''r'') stateTr ''in literal true (expecting 'r')'' s c
      | stateTr \<Rightarrow> expect (CHR ''u'') stateTru ''in literal true (expecting 'u')'' s c
      | stateTru \<Rightarrow> expect_last (CHR ''e'') (JBool True) ''in literal true (expecting 'e')'' s c
      | stateF \<Rightarrow> expect (CHR ''a'') stateFa ''in literal false (expecting 'a')'' s c
      | stateFa \<Rightarrow> expect (CHR ''l'') stateFal ''in literal false (expecting 'l')'' s c
      | stateFal \<Rightarrow> expect (CHR ''s'') stateFals ''in literal false (expecting 's')'' s c
      | stateFals \<Rightarrow>
          expect_last (CHR ''e'') (JBool False) ''in literal false (expecting 'e')'' s c
      | stateN \<Rightarrow> expect (CHR ''u'') stateNu ''in literal null (expecting 'u')'' s c
      | stateNu \<Rightarrow> expect (CHR ''l'') stateNul ''in literal null (expecting 'l')'' s c
      | stateNul \<Rightarrow> expect_last (CHR ''l'') JNull ''in literal null (expecting 'l')'' s c
      | stateError \<Rightarrow> s)"

text \<open>
  \<^verbatim>\<open>scanner.eof\<close>: the end of the input. A top-level number is ended by a space
  that the scanner feeds itself.
\<close>

definition eof :: "scanner \<Rightarrow> scanner" where
  "eof s =
     (if err s \<noteq> None then s
      else if endTop s then s
      else let s' = apply_step s (CHR 0x20)
           in if endTop s' then s'
              else if err s' = None then scan_error s' ''unexpected end of JSON input''
              else s')"

datatype fmt_arg = S string | D int | Err error
and error =
    New string
  | Errorf string "fmt_arg list"
  | SyntaxError string
  | UnmarshalTypeError string

text \<open>
  \<^verbatim>\<open>checkValid\<close>: the scanner run over all the bytes, then \<open>eof\<close>. The value the
  bytes stand for is returned with a nil error, since the second pass of Unmarshal reads
  it from the same bytes.
\<close>

definition checkValid :: "string \<Rightarrow> error option \<times> json" where
  "checkValid data =
     (let s = eof (foldl apply_step reset data)
      in case err s of
           Some context \<Rightarrow> (Some (SyntaxError context), JNull)
         | None \<Rightarrow>
             (case completed s of
                Some v \<Rightarrow> (None, v)
              | None \<Rightarrow> (Some (SyntaxError phasePanicMsg), JNull)))"

definition Valid :: "string \<Rightarrow> bool" where
  "Valid data = (fst (checkValid data) = None)"

subsection \<open>Unmarshal into a struct with one string field\<close>

text \<open>
  Both targets of \<^verbatim>\<open>json.Unmarshal\<close> in \<^verbatim>\<open>main.go\<close> are structs with a single
  field of type string: \<^verbatim>\<open>StackID\<close> under the name \<^verbatim>\<open>stack_id\<close> in
  \<^verbatim>\<open>parseStackID\<close>, \<^verbatim>\<open>DownloadURL\<close> under the name \<^verbatim>\<open>download_url\<close>
  in \<^verbatim>\<open>getCacheDownloadURL\<close>. The struct is modelled by the value of its field.

  A key of the object stands for the field when it is the field's name, or when both
  have the same folded name. Folding puts ASCII letters in upper case and replaces a
  rune by the smallest rune of its case orbit: U+017F (bytes C5 BF) becomes \<open>S\<close> and
  U+212A (bytes E2 84 AA) becomes \<open>K\<close>. No other rune outside ASCII folds into ASCII, so
  the model leaves the bytes of the others as they are: that changes nothing where the
  result is compared with the folded name of a field whose name is ASCII.
\<close>

definition upper :: "char \<Rightarrow> char" where
  "upper c = (if in_range 0x61 0x7A c then char_of (byte c - 0x20) else c)"

fun foldName :: "string \<Rightarrow> string" where
  "foldName (a # b # c # s) =
     (if a = CHR 0xE2 \<and> b = CHR 0x84 \<and> c = CHR 0xAA then CHR ''K'' # foldName s
      else if a = CHR 0xC5 \<and> b = CHR 0xBF then CHR ''S'' # foldName (c # s)
      else upper a # foldName (b # c # s))"
| "foldName [a, b] =
     (if a = CHR 0xC5 \<and> b = CHR 0xBF then ''S'' else [upper a, upper b])"
| "foldName [a] = [upper a]"
| "foldName [] = []"

definition is_field :: "string \<Rightarrow> string \<Rightarrow> bool" where
  "is_field name key = (key = name \<or> foldName key = foldName name)"

text \<open>\<^verbatim>\<open>d.saveError\<close>: the first error is kept, decoding goes on.\<close>

definition saveError :: "error option \<Rightarrow> error \<Rightarrow> error option" where
  "saveError saved e = (case saved of None \<Rightarrow> Some e | Some _ \<Rightarrow> saved)"

text \<open>
  A value stored into the field of type string: a string is stored, \<^verbatim>\<open>null\<close>
  leaves the field as it is, any other value is an \<^verbatim>\<open>UnmarshalTypeError\<close> and is
  skipped.
\<close>

fun store_string :: "json \<Rightarrow> string \<times> error option \<Rightarrow> string \<times> error option" where
  "store_string (JString str) (field, saved) = (str, saved)"
| "store_string JNull (field, saved) = (field, saved)"
| "store_string (JBool _) (field, saved) = (field, saveError saved (UnmarshalTypeError ''bool''))"
| "store_string (JNumber _) (field, saved) =
     (field, saveError saved (UnmarshalTypeError ''number''))"
| "store_string (JArray _) (field, saved) =
     (field, saveError saved (UnmarshalTypeError ''array''))"
| "store_string (JObject _) (field, saved) =
     (field, saveError saved (UnmarshalTypeError ''object''))"

text \<open>
  \<^verbatim>\<open>d.object\<close> on the struct: the members are read in order; the value of a key that
  stands for the field is stored, the value of any other key is skipped.
\<close>

definition store_member ::
  "string \<Rightarrow> string \<times> error option \<Rightarrow> string \<times> json \<Rightarrow> string \<times> error option" where
  "store_member name acc m = (if is_field name (fst m) then store_string (snd m) acc else acc)"

text \<open>
  \<^verbatim>\<open>d.value\<close> on the struct: an object is stored member by member, \<^verbatim>\<open>null\<close>
  changes nothing, any other value is an \<^verbatim>\<open>UnmarshalTypeError\<close>.
\<close>

fun store_struct :: "string \<Rightarrow> json \<Rightarrow> string \<Rightarrow> string \<times> error option" where
  "store_struct name (JObject ms) field = foldl (store_member name) (field, None) ms"
| "store_struct name JNull field = (field, None)"
| "store_struct name (JArray _) field = (field, Some (UnmarshalTypeError ''array''))"
| "store_struct name (JString _) field = (field, Some (UnmarshalTypeError ''string''))"
| "store_struct name (JNumber _) field = (field, Some (UnmarshalTypeError ''number''))"
| "store_struct name (JBool _) field = (field, Some (UnmarshalTypeError ''bool''))"

text \<open>
  \<^verbatim>\<open>json.Unmarshal(data, &v)\<close> for a struct \<open>v\<close> whose only field has the JSON name
  \<open>name\<close> and holds \<open>field\<close>: the field after the call, and the error.
\<close>

definition Unmarshal :: "string \<Rightarrow> string \<Rightarrow> string \<Rightarrow> string \<times> error option" where
  "Unmarshal name data field =
     (case checkValid data of
        (Some e, _) \<Rightarrow> (field, Some e)
      | (None, v) \<Rightarrow> store_struct name v field)"

section \<open>main.go\<close>

subsection \<open>\<^verbatim>\<open>parseStackID\<close>\<close>

definition parseStackID :: "string \<Rightarrow> string \<times> error option" where
  "parseStackID b =
     (case Unmarshal ''stack_id'' b [] of
        (_, Some e) \<Rightarrow> ([], Some e)
      | (archiveInfo_StackID, None) \<Rightarrow> (archiveInfo_StackID, None))"

subsection \<open>The world of a run, and what a run leaves behind\<close>

text \<open>The step inputs.\<close>

record Config =
  CacheAPIURL :: string
  DebugMode :: bool
  StackID :: string

text \<open>
  An HTTP response as the program uses it: the status code, what reading the whole body
  gives, and what closing the body gives.
\<close>

record Response =
  StatusCode :: int
  Body_ReadAll :: "string \<times> error option"
  Body_Close :: "error option"

text \<open>
  Modelled from the spec: \<^verbatim>\<open>readFirstEntry\<close> is not in \<^verbatim>\<open>main.go\<close>. The spec's
  Archive Prefix Inspector decodes exactly one archive entry and returns the entry's header
  and a reader limited to the entry's payload, or reports an error. Of the header the
  program reads the name; of the reader, what \<^verbatim>\<open>ioutil.ReadAll\<close> gives when it is
  called on it.
\<close>

record Entry =
  Name :: string
  Payload_ReadAll :: "string \<times> error option"

text \<open>
  Everything outside \<^verbatim>\<open>main.go\<close> that a run depends on. Each field answers one
  call site, as a function of the call's arguments; a call site is reached at most once in
  a run, and two call sites of the same library function have a field each, since the
  network may answer the second request differently. \<open>readFirstEntry\<close>,
  \<open>extractCacheArchive\<close> and \<open>uncompressArchive\<close> are functions of the repository that
  are not in \<^verbatim>\<open>main.go\<close>.
\<close>

record world =
  stepconf_Parse :: "Config \<times> error option"
  os_Open :: "string \<Rightarrow> error option"
  http_NewRequest :: "string \<Rightarrow> error option"
  client_Do :: "string \<Rightarrow> error + Response"
  http_Get_stream :: "string \<Rightarrow> error + Response"
  http_Get_file :: "string \<Rightarrow> error + Response"
  os_Create :: "string \<Rightarrow> error option"
  io_Copy :: "error option"
  readFirstEntry :: "error + Entry"
  extractCacheArchive :: "error option"
  uncompressArchive :: "string \<Rightarrow> error option"
  elapsed :: string

text \<open>
  The readers and files of a run: the local archive file, the bodies of the three HTTP
  responses, the reader of the first entry, and the file the fallback download is
  written to.
\<close>

datatype handle = ArchiveFile | LookupBody | StreamBody | FallbackBody | FirstEntry | StagingFile

text \<open>
  \<^verbatim>\<open>http.Client\<close>, of which the program sets the field \<^verbatim>\<open>Timeout\<close> (a
  duration in nanoseconds; zero means no timeout). \<^verbatim>\<open>http.Get\<close> sends its request
  with \<^verbatim>\<open>http.DefaultClient\<close>, the zero client.
\<close>

record Client =
  Timeout :: int

definition Second :: int where
  "Second = 1000000000"

definition DefaultClient :: Client where
  "DefaultClient = \<lparr>Timeout = 0\<rparr>"

datatype level = Infof | Warnf | Errorf_log | Printf | Donef

text \<open>
  The trace of a run: the calls that reach the outside, in order. \<open>Opened\<close> marks that
  the call before it has handed the program an open file or response body; \<open>Closed\<close> is
  a call of \<^verbatim>\<open>Close\<close>. A log line is kept as its format and arguments; where the
  program passes the text of an error as the format, the format is \<open>Err\<close> of that error.
\<close>

datatype event =
    Log level fmt_arg "fmt_arg list"
  | Println
  | Print_Config Config
  | SetEnableDebugLog bool
  | Open_File string
  | Create_File string
  | Request Client string
  | Opened handle
  | Closed handle
  | ReadAll handle
  | Copy handle handle
  | NewRestoreReader handle
  | ReadFirstEntry
  | Restore
  | ParseStackID string
  | ExtractCacheArchive
  | UncompressArchive string

text \<open>How a run ends: \<^verbatim>\<open>main\<close> returns, or \<^verbatim>\<open>os.Exit\<close> ends the process.\<close>

datatype outcome = Returned | Exit int

definition exit_code :: "outcome \<Rightarrow> int" where
  "exit_code out = (case out of Returned \<Rightarrow> 0 | Exit n \<Rightarrow> n)"

text \<open>The events \<open>tr\<close>, then the run \<open>r\<close>.\<close>

definition after :: "event list \<Rightarrow> event list \<times> 'a \<Rightarrow> event list \<times> 'a" where
  "after tr r = (case r of (tr', x) \<Rightarrow> (tr @ tr', x))"

text \<open>
  The deferred function that closes a response body: it runs when the function that
  deferred it returns, and logs a warning when \<^verbatim>\<open>Close\<close> fails.
\<close>

definition close_body :: "handle \<Rightarrow> Response \<Rightarrow> event list" where
  "close_body h resp =
     Closed h #
     (case Body_Close resp of
        Some e \<Rightarrow> [Log Warnf (S ''Failed to close response body: %s'') [Err e]]
      | None \<Rightarrow> [])"

definition deferred :: "event list \<Rightarrow> event list \<times> 'a \<Rightarrow> event list \<times> 'a" where
  "deferred closing r = (case r of (tr, x) \<Rightarrow> (tr @ closing, x))"

subsection \<open>\<^verbatim>\<open>downloadCacheArchive\<close>\<close>

definition cacheArchivePath :: string where
  "cacheArchivePath = ''/tmp/cache-archive.tar''"

definition downloadCacheArchive :: "world \<Rightarrow> string \<Rightarrow> event list \<times> string \<times> error option" where
  "downloadCacheArchive w url =
     (if HasPrefix url ''file://'' then ([], TrimPrefix url ''file://'', None)
      else after [Request DefaultClient url]
        (case http_Get_file w url of
           Inl e \<Rightarrow> ([], [], Some e)
         | Inr resp \<Rightarrow>
             after [Opened FallbackBody]
               (deferred (close_body FallbackBody resp)
                  (if StatusCode resp \<noteq> 200 then
                     after [ReadAll FallbackBody]
                       (case Body_ReadAll resp of
                          (responseBytes, Some e) \<Rightarrow> ([], [], Some e)
                        | (responseBytes, None) \<Rightarrow>
                            ([], [], Some (Errorf ''non success response code: %d, body: %s''
                                            [D (StatusCode resp), S responseBytes])))
                   else after [Create_File cacheArchivePath]
                     (case os_Create w cacheArchivePath of
                        Some e \<Rightarrow>
                          ([], [], Some (Errorf
                             ''failed to open the local cache file for write: %s'' [Err e]))
                      | None \<Rightarrow>
                          after [Opened StagingFile, Copy StagingFile FallbackBody]
                            (case io_Copy w of
                               Some e \<Rightarrow> ([], [], Some e)
                             | None \<Rightarrow> ([], cacheArchivePath, None)))))))"

subsection \<open>\<^verbatim>\<open>performRequest\<close>\<close>

text \<open>A nil error means that the body of the response is returned, still open.\<close>

definition performRequest :: "world \<Rightarrow> string \<Rightarrow> event list \<times> error option" where
  "performRequest w url =
     after [Request DefaultClient url]
       (case http_Get_stream w url of
          Inl e \<Rightarrow> ([], Some e)
        | Inr resp \<Rightarrow>
            after [Opened StreamBody]
              (if StatusCode resp \<noteq> 200 then
                 deferred (close_body StreamBody resp)
                   (after [ReadAll StreamBody]
                      (case Body_ReadAll resp of
                         (responseBytes, Some e) \<Rightarrow> ([], Some e)
                       | (responseBytes, None) \<Rightarrow>
                           ([], Some (Errorf ''non success response code: %d, body: %s''
                                        [D (StatusCode resp), S responseBytes]))))
               else ([], None)))"

subsection \<open>\<^verbatim>\<open>getCacheDownloadURL\<close>\<close>

definition getCacheDownloadURL :: "world \<Rightarrow> string \<Rightarrow> event list \<times> string \<times> error option" where
  "getCacheDownloadURL w cacheAPIURL =
     (case http_NewRequest w cacheAPIURL of
        Some e \<Rightarrow> ([], [], Some (Errorf ''failed to create request: %s'' [Err e]))
      | None \<Rightarrow>
          (let client = \<lparr>Timeout = 20 * Second\<rparr>
           in after [Request client cacheAPIURL]
             (case client_Do w cacheAPIURL of
                Inl e \<Rightarrow> ([], [], Some (Errorf ''failed to send request: %s'' [Err e]))
              | Inr resp \<Rightarrow>
                  after [Opened LookupBody]
                    (deferred (close_body LookupBody resp)
                       (after [ReadAll LookupBody]
                          (case Body_ReadAll resp of
                             (body, Some e) \<Rightarrow>
                               ([], [], Some (Errorf
                                  ''request sent, but failed to read response body (http-code: %d): %s''
                                  [D (StatusCode resp), S body]))
                           | (body, None) \<Rightarrow>
                               (if StatusCode resp < 200 \<or> StatusCode resp > 202 then
                                  ([], [], Some (Errorf
                                     ''build cache not found: probably cache not initialised yet (first cache push initialises the cache), nothing to worry about ;)''
                                     []))
                                else (case Unmarshal ''download_url'' body [] of
                                  (respModel_DownloadURL, Some e) \<Rightarrow>
                                    ([], [], Some (Errorf
                                       ''failed to parse JSON response (%s): %s'' [S body, Err e]))
                                | (respModel_DownloadURL, None) \<Rightarrow>
                                    (if respModel_DownloadURL = [] then
                                       ([], [], Some (New
                                          ''download URL not included in the response''))
                                     else ([], respModel_DownloadURL, None))))))))))"

subsection \<open>\<^verbatim>\<open>failf\<close> and \<^verbatim>\<open>main\<close>\<close>

text \<open>
  A part of \<^verbatim>\<open>main\<close> leaves its events and either the outcome of the run, when the
  run ends in it, or what the rest of \<^verbatim>\<open>main\<close> goes on with.
\<close>

type_synonym 'a part = "event list \<times> (outcome + 'a)"

definition failf :: "fmt_arg \<Rightarrow> fmt_arg list \<Rightarrow> 'a part" where
  "failf format args = ([Log Errorf_log format args], Inl (Exit 1))"

definition and_then :: "'a part \<Rightarrow> ('a \<Rightarrow> 'b part) \<Rightarrow> 'b part" where
  "and_then r f =
     (case r of (tr, Inl out) \<Rightarrow> (tr, Inl out) | (tr, Inr x) \<Rightarrow> after tr (f x))"

text \<open>Lines 152 to 162: the step inputs; without a cache API URL there is nothing to do.\<close>

definition main_config :: "world \<Rightarrow> Config part" where
  "main_config w =
     (case stepconf_Parse w of
        (conf, Some e) \<Rightarrow> failf (Err e) []
      | (conf, None) \<Rightarrow>
          after [Print_Config conf, SetEnableDebugLog (DebugMode conf)]
            (if CacheAPIURL conf = [] then
               ([Log Warnf (S ''No Cache API URL specified, there's no cache to use, exiting.'') []],
                Inl Returned)
             else ([], Inr conf)))"

text \<open>
  Lines 166 to 198: the archive stream, from the local file or from the download URL of
  the cache API; it gives \<open>cacheReader\<close> and \<open>cacheURI\<close>.
\<close>

definition main_source :: "world \<Rightarrow> Config \<Rightarrow> (handle \<times> string) part" where
  "main_source w conf =
     (if HasPrefix (CacheAPIURL conf) ''file://'' then
        (let cacheURI = CacheAPIURL conf;
             pth = TrimPrefix (CacheAPIURL conf) ''file://''
         in after [Println, Log Infof (S ''Using local cache archive'') [], Open_File pth]
              (case os_Open w pth of
                 Some e \<Rightarrow> failf (S ''Failed to open cache archive file: %s'') [Err e]
               | None \<Rightarrow> ([Opened ArchiveFile], Inr (ArchiveFile, cacheURI))))
      else after [Println, Log Infof (S ''Downloading remote cache archive'') []]
        (case getCacheDownloadURL w (CacheAPIURL conf) of
           (tr, downloadURL, Some e) \<Rightarrow>
             after tr (failf (S ''Failed to get cache download url: %s'') [Err e])
         | (tr, downloadURL, None) \<Rightarrow>
             after (tr @ [Log Infof (S ''%s'') [S downloadURL]])
               (case performRequest w downloadURL of
                  (tr', Some e) \<Rightarrow>
                    after tr' (failf (S ''Failed to perform cache download request: %s'') [Err e])
                | (tr', None) \<Rightarrow> (tr', Inr (StreamBody, downloadURL)))))"

text \<open>Lines 202 to 235: the check of the archive's stack against the current stack.\<close>

definition main_stack_check :: "world \<Rightarrow> Config \<Rightarrow> unit part" where
  "main_stack_check w conf =
     (let currentStackID = TrimSpace (StackID conf)
      in if length currentStackID > 0 then
           after [Println, Log Infof (S ''Checking archive and current stacks'') [],
                  Log Printf (S ''current stack id: %s'') [S currentStackID],
                  ReadFirstEntry]
             (case readFirstEntry w of
                Inl e \<Rightarrow> failf (S ''Failed to get first archive entry: %s'') [Err e]
              | Inr hdr \<Rightarrow>
                  after [Restore]
                    (if Base (Name hdr) = ''archive_info.json'' then
                       after [ReadAll FirstEntry]
                         (case Payload_ReadAll hdr of
                            (b, Some e) \<Rightarrow>
                              failf (S ''Failed to read first archive entry: %s'') [Err e]
                          | (b, None) \<Rightarrow>
                              after [ParseStackID b]
                                (case parseStackID b of
                                   (archiveStackID, Some e) \<Rightarrow>
                                     failf (S ''Failed to parse first archive entry: %s'') [Err e]
                                 | (archiveStackID, None) \<Rightarrow>
                                     after [Log Printf (S ''archive stack id: %s'')
                                              [S archiveStackID]]
                                       (if archiveStackID \<noteq> currentStackID then
                                          ([Log Warnf
                                              (S ''Cache was created on stack: %s, current stack: %s'')
                                              [S archiveStackID, S currentStackID],
                                            Log Warnf
                                              (S ''Skipping cache pull, because of the stack has changed'')
                                              []],
                                           Inl (Exit 0))
                                        else ([], Inr ()))))
                     else ([Log Warnf
                              (S ''cache archive does not contain stack information, skipping stack check'')
                              []],
                           Inr ())))
         else ([], Inr ()))"

text \<open>Lines 237 to 256: the extraction, and the fallback when it fails.\<close>

definition main_done :: "world \<Rightarrow> unit part" where
  "main_done w =
     ([Println, Log Donef (S ''Done'') [], Log Printf (S (''Took: '' @ elapsed w)) []], Inr ())"

definition main_extract :: "world \<Rightarrow> string \<Rightarrow> unit part" where
  "main_extract w cacheURI =
     after [Println, Log Infof (S ''Extracting cache archive'') [], ExtractCacheArchive]
       (case extractCacheArchive w of
          Some e \<Rightarrow>
            after [Log Warnf (S ''Failed to uncompress cache archive stream: %s'') [Err e],
                   Log Warnf
                     (S ''Downloading the archive file and trying to uncompress using tar tool'')
                     []]
              (case downloadCacheArchive w cacheURI of
                 (tr, pth, Some e') \<Rightarrow>
                   after tr
                     (failf (S ''Fallback failed, unable to download cache archive: %s'') [Err e'])
               | (tr, pth, None) \<Rightarrow>
                   after (tr @ [UncompressArchive pth])
                     (case uncompressArchive w pth of
                        Some e' \<Rightarrow>
                          failf (S ''Fallback failed, unable to uncompress cache archive file: %s'')
                            [Err e']
                      | None \<Rightarrow> main_done w))
        | None \<Rightarrow> main_done w)"

definition main_parts :: "world \<Rightarrow> unit part" where
  "main_parts w =
     and_then (main_config w) (\<lambda>conf.
     and_then (main_source w conf) (\<lambda>(cacheReader, cacheURI).
     and_then ([NewRestoreReader cacheReader], Inr ()) (\<lambda>_.
     and_then (main_stack_check w conf) (\<lambda>_.
     main_extract w cacheURI))))"

definition main :: "world \<Rightarrow> event list \<times> outcome" where
  "main w =
     (case main_parts w of
        (tr, Inl out) \<Rightarrow> (tr, out)
      | (tr, Inr _) \<Rightarrow> (tr, Returned))"

subsection \<open>Concrete runs\<close>

text \<open>
  A run on a local archive: the archive opens, its first entry is the metadata entry
  and names the stack the step runs on (given with blanks around it), and the streaming
  extraction succeeds. No request is answered.
\<close>

definition no_network :: "string \<Rightarrow> error + Response" where
  "no_network url = Inl (New ''dial tcp: connection refused'')"

definition local_conf :: Config where
  "local_conf = \<lparr>CacheAPIURL = ''file:///tmp/cache.tar.gz'', DebugMode = False,
                  StackID = '' osx-xcode ''\<rparr>"

definition info_entry :: "string \<Rightarrow> Entry" where
  "info_entry payload = \<lparr>Name = ''archive_info.json'', Payload_ReadAll = (payload, None)\<rparr>"

definition local_world :: world where
  "local_world =
     \<lparr>stepconf_Parse = (local_conf, None),
      os_Open = (\<lambda>pth. None),
      http_NewRequest = (\<lambda>url. None),
      client_Do = no_network,
      http_Get_stream = no_network,
      http_Get_file = no_network,
      os_Create = (\<lambda>pth. None),
      io_Copy = None,
      readFirstEntry = Inr (info_entry ''{\"stack_id\":\"osx-xcode\"}''),
      extractCacheArchive = None,
      uncompressArchive = (\<lambda>pth. None),
      elapsed = ''1.5s''\<rparr>"

text \<open>
  A run on a remote archive: the cache API answers with the download URL, the download
  is answered with status 200, the first entry is the metadata entry of the current
  stack. An URL of the scheme \<^verbatim>\<open>file\<close> is refused by the HTTP client, as Go's does.
\<close>

definition api_url :: string where
  "api_url = ''https://api.example.com/cache''"

definition download_url :: string where
  "download_url = ''https://storage.example.com/cache.tar.gz''"

definition answer :: "string \<Rightarrow> string \<Rightarrow> string \<Rightarrow> error + Response" where
  "answer at body url =
     (if HasPrefix url ''file://'' then Inl (New ''unsupported protocol scheme'')
      else if url = at then Inr \<lparr>StatusCode = 200, Body_ReadAll = (body, None), Body_Close = None\<rparr>
      else Inr \<lparr>StatusCode = 404, Body_ReadAll = (''not found'', None), Body_Close = None\<rparr>)"

definition remote_conf :: Config where
  "remote_conf = \<lparr>CacheAPIURL = api_url, DebugMode = False, StackID = ''osx-xcode''\<rparr>"

definition remote_world :: world where
  "remote_world =
     \<lparr>stepconf_Parse = (remote_conf, None),
      os_Open = (\<lambda>pth. Some (New ''no such file or directory'')),
      http_NewRequest = (\<lambda>url. None),
      client_Do = answer api_url (''{\"download_url\":\"'' @ download_url @ ''\"}''),
      http_Get_stream = answer download_url ''archive bytes'',
      http_Get_file = answer download_url ''archive bytes'',
      os_Create = (\<lambda>pth. None),
      io_Copy = None,
      readFirstEntry = Inr (info_entry ''{\"stack_id\":\"osx-xcode\"}''),
      extractCacheArchive = None,
      uncompressArchive = (\<lambda>pth. None),
      elapsed = ''1.5s''\<rparr>"

text \<open>Variations of the local run: the first entry of the archive, the configured stack.\<close>

definition with_entry :: "error + Entry \<Rightarrow> world" where
  "with_entry first = local_world\<lparr>readFirstEntry := first\<rparr>"

definition other_stack_world :: world where
  "other_stack_world = with_entry (Inr (info_entry ''{\"stack_id\":\"linux-docker\"}''))"

definition blank_stack_conf :: Config where
  "blank_stack_conf = local_conf\<lparr>StackID := [CHR 0x20, CHR 0x09, CHR 0xC2, CHR 0xA0]\<rparr>"

definition blank_stack_world :: world where
  "blank_stack_world = local_world\<lparr>stepconf_Parse := (blank_stack_conf, None)\<rparr>"

text \<open>
  The first entry cannot be decoded; its payload cannot be read; its payload is not JSON;
  it is not the metadata entry; it is the metadata entry inside a directory.
\<close>

definition truncated_world :: world where
  "truncated_world = with_entry (Inl (New ''unexpected EOF''))"

definition unreadable_entry_world :: world where
  "unreadable_entry_world =
     with_entry (Inr \<lparr>Name = ''archive_info.json'',
                       Payload_ReadAll = ([], Some (New ''unexpected EOF''))\<rparr>)"

definition bad_json_world :: world where
  "bad_json_world = with_entry (Inr (info_entry ''{\"stack_id\":''))"

definition no_info_world :: world where
  "no_info_world =
     with_entry (Inr \<lparr>Name = ''Users/vagrant/cache/data.bin'', Payload_ReadAll = ([], None)\<rparr>)"

definition nested_info_world :: world where
  "nested_info_world =
     with_entry (Inr \<lparr>Name = ''./cache/archive_info.json'',
                       Payload_ReadAll = (''{\"stack_id\":\"osx-xcode\"}'', None)\<rparr>)"

text \<open>
  The archive's stack id is the configured one with blanks around it; it is the
  configured one in upper case.
\<close>

definition padded_archive_world :: world where
  "padded_archive_world = with_entry (Inr (info_entry ''{\"stack_id\":\" osx-xcode \"}''))"

definition upper_case_archive_world :: world where
  "upper_case_archive_world = with_entry (Inr (info_entry ''{\"stack_id\":\"OSX-XCODE\"}''))"

section \<open>Properties of a run\<close>

subsection \<open>What is read off a trace\<close>

text \<open>
  What makes Unmarshal return an \<^verbatim>\<open>UnmarshalTypeError\<close> on valid JSON: the value
  is neither an object nor \<^verbatim>\<open>null\<close>, or a member whose key stands for the field
  holds a value that is neither a string nor \<^verbatim>\<open>null\<close>.
\<close>

fun wrong_type :: "json \<Rightarrow> bool" where
  "wrong_type (JString _) = False"
| "wrong_type JNull = False"
| "wrong_type _ = True"

fun type_mismatch :: "string \<Rightarrow> json \<Rightarrow> bool" where
  "type_mismatch name (JObject ms) = list_ex (\<lambda>m. is_field name (fst m) \<and> wrong_type (snd m)) ms"
| "type_mismatch name JNull = False"
| "type_mismatch name _ = True"

text \<open>The two extraction attempts: the streaming one and the one on a file.\<close>

fun is_extraction :: "event \<Rightarrow> bool" where
  "is_extraction ExtractCacheArchive = True"
| "is_extraction (UncompressArchive _) = True"
| "is_extraction _ = False"

text \<open>
  The steps of the stack check: the first entry is decoded, the reader is restored, the
  payload of the entry is read, the stack id is parsed from it.
\<close>

fun is_check :: "event \<Rightarrow> bool" where
  "is_check ReadFirstEntry = True"
| "is_check Restore = True"
| "is_check (ReadAll h) = (h = FirstEntry)"
| "is_check (ParseStackID _) = True"
| "is_check _ = False"

text \<open>A trace with no step of the stack check and no extraction attempt.\<close>

definition neutral :: "event list \<Rightarrow> bool" where
  "neutral tr = (filter is_check tr = [] \<and> filter is_extraction tr = [])"

text \<open>No event \<open>Q\<close> happens before the first event \<open>P\<close>: \<open>Q\<close> happens only after \<open>P\<close>.\<close>

fun only_after :: "(event \<Rightarrow> bool) \<Rightarrow> (event \<Rightarrow> bool) \<Rightarrow> event list \<Rightarrow> bool" where
  "only_after P Q [] = True"
| "only_after P Q (e # tr) = (if P e then True else if Q e then False else only_after P Q tr)"

text \<open>
  The run has its archive stream: the step inputs are read, there is a cache API URL,
  and the local file is open or the download is answered.
\<close>

definition has_stream :: "world \<Rightarrow> Config \<Rightarrow> handle \<Rightarrow> string \<Rightarrow> bool" where
  "has_stream w conf cacheReader cacheURI =
     (stepconf_Parse w = (conf, None) \<and> CacheAPIURL conf \<noteq> [] \<and>
      snd (main_source w conf) = Inr (cacheReader, cacheURI))"

text \<open>The events of such a run before the stack check.\<close>

definition before_check :: "world \<Rightarrow> Config \<Rightarrow> handle \<Rightarrow> event list" where
  "before_check w conf cacheReader =
     [Print_Config conf, SetEnableDebugLog (DebugMode conf)] @ fst (main_source w conf) @
     [NewRestoreReader cacheReader]"

text \<open>
  A string that is empty or consists only of white space: a sequence of space runes.
\<close>

inductive only_white_space :: "string \<Rightarrow> bool" where
  empty: "only_white_space []"
| space: "e \<in> set space_encodings \<Longrightarrow> only_white_space s \<Longrightarrow> only_white_space (e @ s)"

subsection \<open>The parts of a run, one after the other\<close>

lemma after_eq: "after tr r = (tr @ fst r, snd r)"
  by (simp add: after_def split: prod.splits)

lemma deferred_eq: "deferred closing r = (fst r @ closing, snd r)"
  by (simp add: deferred_def split: prod.splits)

lemma and_then_eq:
  "and_then r f = (case snd r of Inl out \<Rightarrow> (fst r, Inl out) | Inr x \<Rightarrow> after (fst r) (f x))"
  by (simp add: and_then_def split: prod.splits sum.splits)

lemma fst_after [simp]: "fst (after tr r) = tr @ fst r"
  by (simp add: after_eq)

lemma snd_after [simp]: "snd (after tr r) = snd r"
  by (simp add: after_eq)

lemma fst_deferred [simp]: "fst (deferred c r) = fst r @ c"
  by (simp add: deferred_eq)

lemma snd_deferred [simp]: "snd (deferred c r) = snd r"
  by (simp add: deferred_eq)

lemma fst_failf [simp]: "fst (failf f args) = [Log Errorf_log f args]"
  by (simp add: failf_def)

lemma snd_failf [simp]: "snd (failf f args) = Inl (Exit 1)"
  by (simp add: failf_def)

lemma neutral_Nil [simp]: "neutral []"
  by (simp add: neutral_def)

lemma neutral_Cons [simp]:
  "neutral (e # tr) = (\<not> is_extraction e \<and> \<not> is_check e \<and> neutral tr)"
  by (auto simp: neutral_def)

lemma neutral_append [simp]: "neutral (xs @ ys) = (neutral xs \<and> neutral ys)"
  by (auto simp: neutral_def)

lemma neutralD: "neutral tr \<Longrightarrow> e \<in> set tr \<Longrightarrow> \<not> is_extraction e \<and> \<not> is_check e"
  by (auto simp: neutral_def filter_empty_conv)

lemma close_body_neutral [simp]: "neutral (close_body h resp)"
  by (simp add: close_body_def split: option.splits)

lemma getCacheDownloadURL_neutral [simp]: "neutral (fst (getCacheDownloadURL w u))"
  unfolding getCacheDownloadURL_def Let_def
  by (simp split: option.splits sum.splits prod.splits)

lemma performRequest_neutral [simp]: "neutral (fst (performRequest w u))"
  unfolding performRequest_def
  by (simp split: option.splits sum.splits prod.splits)

lemma main_source_neutral [simp]: "neutral (fst (main_source w conf))"
proof -
  have a: "\<And>tr r. getCacheDownloadURL w (CacheAPIURL conf) = (tr, r) \<Longrightarrow> neutral tr"
    using getCacheDownloadURL_neutral [of w "CacheAPIURL conf"] by simp
  have b: "\<And>u tr r. performRequest w u = (tr, r) \<Longrightarrow> neutral tr"
    using performRequest_neutral [of w] by (metis fst_conv)
  show ?thesis
    unfolding main_source_def Let_def
    by (auto simp: a b split: option.splits sum.splits prod.splits)
qed

lemma before_check_neutral [simp]: "neutral (before_check w conf r)"
  by (simp add: before_check_def)

lemma main_stack_check_no_extraction [simp]:
  "filter is_extraction (fst (main_stack_check w conf)) = []"
  unfolding main_stack_check_def Let_def
  by (simp split: option.splits sum.splits prod.splits)

lemma downloadCacheArchive_no_check [simp]:
  "filter is_check (fst (downloadCacheArchive w u)) = []"
  unfolding downloadCacheArchive_def
  by (simp add: close_body_def split: option.splits sum.splits prod.splits)

lemma main_extract_no_check [simp]: "filter is_check (fst (main_extract w uri)) = []"
proof -
  have a: "\<And>tr r. downloadCacheArchive w uri = (tr, r) \<Longrightarrow> filter is_check tr = []"
    using downloadCacheArchive_no_check [of w uri] by simp
  show ?thesis
    unfolding main_extract_def main_done_def
    by (auto simp: a split: option.splits sum.splits prod.splits)
qed

lemma main_extract_starts: "ExtractCacheArchive \<in> set (fst (main_extract w uri))"
  by (simp add: main_extract_def)

lemma main_parts_has_stream:
  assumes "has_stream w conf r uri"
  shows "main_parts w =
           after (before_check w conf r)
             (and_then (main_stack_check w conf) (\<lambda>_. main_extract w uri))"
proof -
  from assms have p: "stepconf_Parse w = (conf, None)" and u: "CacheAPIURL conf \<noteq> []"
    and s: "snd (main_source w conf) = Inr (r, uri)"
    by (simp_all add: has_stream_def)
  from p u have c:
    "main_config w = ([Print_Config conf, SetEnableDebugLog (DebugMode conf)], Inr conf)"
    by (simp add: main_config_def after_eq)
  show ?thesis
    unfolding main_parts_def
    by (simp add: c s and_then_eq after_eq before_check_def)
qed

lemma main_stops_in_check:
  assumes "has_stream w conf r uri" and "snd (main_stack_check w conf) = Inl out"
  shows "main w = (before_check w conf r @ fst (main_stack_check w conf), out)"
  using assms(2) by (simp add: main_def main_parts_has_stream [OF assms(1)] and_then_eq after_eq)

lemma main_goes_on:
  assumes "has_stream w conf r uri" and "snd (main_stack_check w conf) = Inr x"
  shows "fst (main w) =
           before_check w conf r @ fst (main_stack_check w conf) @ fst (main_extract w uri)"
    and "snd (main w) = (case snd (main_extract w uri) of Inl out \<Rightarrow> out | Inr _ \<Rightarrow> Returned)"
  using assms(2)
  by (simp_all add: main_def main_parts_has_stream [OF assms(1)] and_then_eq after_eq
      split: prod.splits sum.splits)

lemma has_stream_local:
  assumes "stepconf_Parse w = (conf, None)"
    and "HasPrefix (CacheAPIURL conf) ''file://''"
    and "os_Open w (TrimPrefix (CacheAPIURL conf) ''file://'') = None"
  shows "has_stream w conf ArchiveFile (CacheAPIURL conf)"
proof -
  from assms(2) have "CacheAPIURL conf \<noteq> []" by (auto simp: HasPrefix_def)
  with assms show ?thesis by (simp add: has_stream_def main_source_def Let_def)
qed

subsection \<open>Values the concrete runs need\<close>

lemma local_url: "HasPrefix ''file:///tmp/cache.tar.gz'' ''file://''"
  by code_simp

lemma TrimSpace_local: "TrimSpace '' osx-xcode '' = ''osx-xcode''"
  by code_simp

lemma TrimSpace_blank: "TrimSpace [CHR 0x20, CHR 0x09, CHR 0xC2, CHR 0xA0] = []"
  by code_simp

lemma Base_info: "Base ''archive_info.json'' = ''archive_info.json''"
  by code_simp

lemma parse_osx: "parseStackID ''{\"stack_id\":\"osx-xcode\"}'' = (''osx-xcode'', None)"
  by code_simp

lemma parse_linux: "parseStackID ''{\"stack_id\":\"linux-docker\"}'' = (''linux-docker'', None)"
  by code_simp

lemma has_stream_with_entry:
  "has_stream (with_entry first) local_conf ArchiveFile ''file:///tmp/cache.tar.gz''"
  using has_stream_local [of "with_entry first" local_conf] local_url
  by (simp add: with_entry_def local_world_def local_conf_def)

lemma has_stream_blank:
  "has_stream blank_stack_world blank_stack_conf ArchiveFile ''file:///tmp/cache.tar.gz''"
  using has_stream_local [of blank_stack_world blank_stack_conf] local_url
  by (simp add: blank_stack_world_def blank_stack_conf_def local_world_def local_conf_def)

subsection \<open>The stack check\<close>

text \<open>
  Claim C3. A run that has its archive stream and a configured stack id, and whose
  archive starts with the metadata entry holding another stack id than the configured
  one, ends with \<^verbatim>\<open>os.Exit(0)\<close>: a warning is logged, and neither the streaming
  extraction nor the fallback is entered.
\<close>

theorem stack_mismatch_is_success:
  assumes "has_stream w conf cacheReader cacheURI"
    and "TrimSpace (StackID conf) \<noteq> []"
    and "readFirstEntry w = Inr hdr"
    and "Base (Name hdr) = ''archive_info.json''"
    and "Payload_ReadAll hdr = (b, None)"
    and "parseStackID b = (archiveStackID, None)"
    and "archiveStackID \<noteq> TrimSpace (StackID conf)"
  shows "snd (main w) = Exit 0 \<and> exit_code (snd (main w)) = 0 \<and>
         Log Warnf (S ''Skipping cache pull, because of the stack has changed'') []
           \<in> set (fst (main w)) \<and>
         filter is_extraction (fst (main w)) = []"
proof -
  have c: "snd (main_stack_check w conf) = Inl (Exit 0)"
    and l: "Log Warnf (S ''Skipping cache pull, because of the stack has changed'') []
              \<in> set (fst (main_stack_check w conf))"
    using assms(2-7) by (simp_all add: main_stack_check_def Let_def)
  have m: "main w = (before_check w conf cacheReader @ fst (main_stack_check w conf), Exit 0)"
    by (rule main_stops_in_check [OF assms(1) c])
  have "filter is_extraction (before_check w conf cacheReader) = []"
    using before_check_neutral [of w conf cacheReader] by (simp add: neutral_def)
  with m l show ?thesis by (simp add: exit_code_def)
qed

theorem stack_mismatch_is_success_witness:
  "has_stream other_stack_world local_conf ArchiveFile ''file:///tmp/cache.tar.gz'' \<and>
   TrimSpace (StackID local_conf) = ''osx-xcode'' \<and>
   parseStackID ''{\"stack_id\":\"linux-docker\"}'' = (''linux-docker'', None) \<and>
   snd (main other_stack_world) = Exit 0 \<and>
   filter is_extraction (fst (main other_stack_world)) = []"
proof -
  let ?hdr = "info_entry ''{\"stack_id\":\"linux-docker\"}''"
  have s: "has_stream other_stack_world local_conf ArchiveFile ''file:///tmp/cache.tar.gz''"
    unfolding other_stack_world_def by (rule has_stream_with_entry)
  have t: "TrimSpace (StackID local_conf) = ''osx-xcode''"
    by (simp add: local_conf_def TrimSpace_local)
  have r: "readFirstEntry other_stack_world = Inr ?hdr"
    by (simp add: other_stack_world_def with_entry_def)
  have n: "Base (Name ?hdr) = ''archive_info.json''"
    by (simp add: info_entry_def Base_info)
  have p: "Payload_ReadAll ?hdr = (''{\"stack_id\":\"linux-docker\"}'', None)"
    by (simp add: info_entry_def)
  from stack_mismatch_is_success [OF s _ r n p parse_linux] t parse_linux s
  show ?thesis by simp
qed

lemma fatal_in_check:
  assumes "has_stream w conf cacheReader cacheURI"
    and "snd (main_stack_check w conf) = Inl out"
  shows "snd (main w) = out \<and> filter is_extraction (fst (main w)) = []"
proof -
  have m: "main w = (before_check w conf cacheReader @ fst (main_stack_check w conf), out)"
    by (rule main_stops_in_check [OF assms])
  have "filter is_extraction (before_check w conf cacheReader) = []"
    using before_check_neutral [of w conf cacheReader] by (simp add: neutral_def)
  with m show ?thesis by simp
qed

text \<open>
  Claim C4. With a configured stack id, a run that has its archive stream ends with
  \<^verbatim>\<open>os.Exit(1)\<close> and without any extraction attempt when the first entry cannot be
  decoded, when the payload of the metadata entry cannot be read, and when that payload
  is refused by \<^verbatim>\<open>parseStackID\<close>. When the first entry is not named
  \<^verbatim>\<open>archive_info.json\<close>, a warning is logged and the run goes on with the extraction,
  whose outcome is the outcome of the run.
\<close>

theorem metadata_check_strictness:
  assumes "has_stream w conf cacheReader cacheURI"
    and "TrimSpace (StackID conf) \<noteq> []"
  shows "(readFirstEntry w = Inl e \<longrightarrow>
            snd (main w) = Exit 1 \<and> filter is_extraction (fst (main w)) = []) \<and>
         (readFirstEntry w = Inr hdr \<and> Base (Name hdr) = ''archive_info.json'' \<and>
            Payload_ReadAll hdr = (b, Some e) \<longrightarrow>
            snd (main w) = Exit 1 \<and> filter is_extraction (fst (main w)) = []) \<and>
         (readFirstEntry w = Inr hdr \<and> Base (Name hdr) = ''archive_info.json'' \<and>
            Payload_ReadAll hdr = (b, None) \<and> parseStackID b = (sid, Some e) \<longrightarrow>
            snd (main w) = Exit 1 \<and> filter is_extraction (fst (main w)) = []) \<and>
         (readFirstEntry w = Inr hdr \<and> Base (Name hdr) \<noteq> ''archive_info.json'' \<longrightarrow>
            Log Warnf
              (S ''cache archive does not contain stack information, skipping stack check'') []
              \<in> set (fst (main w)) \<and>
            ExtractCacheArchive \<in> set (fst (main w)) \<and>
            snd (main w) = (case snd (main_extract w cacheURI) of
                              Inl out \<Rightarrow> out | Inr _ \<Rightarrow> Returned))"
proof -
  note fatal = fatal_in_check [OF assms(1), of "Exit 1"]
  have 1: "snd (main w) = Exit 1 \<and> filter is_extraction (fst (main w)) = []"
    if "readFirstEntry w = Inl e"
    using that assms(2) by (intro fatal) (simp add: main_stack_check_def Let_def)
  have 2: "snd (main w) = Exit 1 \<and> filter is_extraction (fst (main w)) = []"
    if "readFirstEntry w = Inr hdr" "Base (Name hdr) = ''archive_info.json''"
      "Payload_ReadAll hdr = (b, Some e)"
    using that assms(2) by (intro fatal) (simp add: main_stack_check_def Let_def)
  have 3: "snd (main w) = Exit 1 \<and> filter is_extraction (fst (main w)) = []"
    if "readFirstEntry w = Inr hdr" "Base (Name hdr) = ''archive_info.json''"
      "Payload_ReadAll hdr = (b, None)" "parseStackID b = (sid, Some e)"
    using that assms(2) by (intro fatal) (simp add: main_stack_check_def Let_def)
  have 4: "Log Warnf
              (S ''cache archive does not contain stack information, skipping stack check'') []
              \<in> set (fst (main w)) \<and>
            ExtractCacheArchive \<in> set (fst (main w)) \<and>
            snd (main w) = (case snd (main_extract w cacheURI) of
                              Inl out \<Rightarrow> out | Inr _ \<Rightarrow> Returned)"
    if h: "readFirstEntry w = Inr hdr" "Base (Name hdr) \<noteq> ''archive_info.json''"
  proof -
    have c: "main_stack_check w conf =
               ([Println, Log Infof (S ''Checking archive and current stacks'') [],
                 Log Printf (S ''current stack id: %s'') [S (TrimSpace (StackID conf))],
                 ReadFirstEntry, Restore,
                 Log Warnf
                   (S ''cache archive does not contain stack information, skipping stack check'')
                   []],
                Inr ())"
      using h assms(2) by (simp add: main_stack_check_def Let_def after_eq)
    then have "snd (main_stack_check w conf) = Inr ()" by simp
    note g = main_goes_on [OF assms(1) this]
    show ?thesis
      using g c main_extract_starts [of w cacheURI] by simp
  qed
  from 1 2 3 4 show ?thesis by blast
qed

lemma parse_bad_json:
  "parseStackID ''{\"stack_id\":'' = ([], Some (SyntaxError ''unexpected end of JSON input''))"
  by code_simp

lemma Base_data: "Base ''Users/vagrant/cache/data.bin'' = ''data.bin''"
  by code_simp

lemma TrimSpace_local_conf: "TrimSpace (StackID local_conf) = ''osx-xcode''"
  by (simp add: local_conf_def TrimSpace_local)

theorem metadata_check_strictness_witness:
  "snd (main truncated_world) = Exit 1 \<and>
   filter is_extraction (fst (main truncated_world)) = [] \<and>
   snd (main unreadable_entry_world) = Exit 1 \<and>
   filter is_extraction (fst (main unreadable_entry_world)) = [] \<and>
   parseStackID ''{\"stack_id\":'' = ([], Some (SyntaxError ''unexpected end of JSON input'')) \<and>
   snd (main bad_json_world) = Exit 1 \<and>
   filter is_extraction (fst (main bad_json_world)) = [] \<and>
   Base ''Users/vagrant/cache/data.bin'' \<noteq> ''archive_info.json'' \<and>
   ExtractCacheArchive \<in> set (fst (main no_info_world))"
proof -
  have t: "TrimSpace (StackID local_conf) \<noteq> []" by (simp add: TrimSpace_local_conf)
  note a = metadata_check_strictness [OF has_stream_with_entry t]
  have 1: "snd (main truncated_world) = Exit 1 \<and>
           filter is_extraction (fst (main truncated_world)) = []"
    using a [of "Inl (New ''unexpected EOF'')" "New ''unexpected EOF''"]
    by (simp add: truncated_world_def with_entry_def)
  have 2: "snd (main unreadable_entry_world) = Exit 1 \<and>
           filter is_extraction (fst (main unreadable_entry_world)) = []"
    using a [of "Inr \<lparr>Name = ''archive_info.json'',
                       Payload_ReadAll = ([], Some (New ''unexpected EOF''))\<rparr>"
               "New ''unexpected EOF''"
               "\<lparr>Name = ''archive_info.json'',
                       Payload_ReadAll = ([], Some (New ''unexpected EOF''))\<rparr>" "[]"]
    by (simp add: unreadable_entry_world_def with_entry_def Base_info)
  have 3: "snd (main bad_json_world) = Exit 1 \<and>
           filter is_extraction (fst (main bad_json_world)) = []"
    using a [of "Inr (info_entry ''{\"stack_id\":'')" "SyntaxError ''unexpected end of JSON input''"
               "info_entry ''{\"stack_id\":''" "''{\"stack_id\":''" "[]"] parse_bad_json
    by (simp add: bad_json_world_def with_entry_def info_entry_def Base_info)
  have 4: "ExtractCacheArchive \<in> set (fst (main no_info_world))"
    using a [of "Inr \<lparr>Name = ''Users/vagrant/cache/data.bin'',
                       Payload_ReadAll = ([], None)\<rparr>" _
               "\<lparr>Name = ''Users/vagrant/cache/data.bin'', Payload_ReadAll = ([], None)\<rparr>"]
    by (simp add: no_info_world_def with_entry_def Base_data)
  from 1 2 3 4 parse_bad_json Base_data show ?thesis by simp
qed

subsection \<open>White space\<close>

declare TrimLeftSpace.simps [simp del] TrimRightSpace.simps [simp del]

lemma HasPrefix_append_cases:
  assumes "HasPrefix (e @ s) e'"
  shows "HasPrefix e e' \<or> HasPrefix e' e"
proof (cases "length e' \<le> length e")
  case True
  with assms show ?thesis by (simp add: HasPrefix_def)
next
  case False
  from assms have "take (length e') (e @ s) = e'" by (simp add: HasPrefix_def)
  then have "take (length e) e' = take (length e) (take (length e') (e @ s))" by simp
  also have "\<dots> = e" using False by (simp add: min_def)
  finally show ?thesis using False by (simp add: HasPrefix_def)
qed

lemma HasPrefix_append_self: "HasPrefix (e @ s) e"
  by (simp add: HasPrefix_def)

lemma encodings_prefix_free:
  "\<forall>e \<in> set space_encodings. \<forall>e' \<in> set space_encodings.
     HasPrefix e e' \<or> HasPrefix e' e \<longrightarrow> e' = e"
  by code_simp

lemma encodings_distinct: "distinct space_encodings"
  by code_simp

lemma encodings_not_empty: "\<forall>e \<in> set space_encodings. e \<noteq> []"
  by code_simp

lemma filter_eq_single: "distinct xs \<Longrightarrow> x \<in> set xs \<Longrightarrow> filter (\<lambda>y. y = x) xs = [x]"
  by (induction xs) (auto simp: filter_empty_conv)

lemma leading_space_encoding:
  assumes "e \<in> set space_encodings"
  shows "leading_space (e @ s) = length e"
proof -
  have "filter (HasPrefix (e @ s)) space_encodings = filter (\<lambda>y. y = e) space_encodings"
  proof (rule filter_cong [OF refl])
    fix e' assume m: "e' \<in> set space_encodings"
    show "HasPrefix (e @ s) e' = (e' = e)"
      using HasPrefix_append_cases [of e s e'] HasPrefix_append_self [of e s]
        encodings_prefix_free assms m
      by blast
  qed
  also have "\<dots> = [e]" by (rule filter_eq_single [OF encodings_distinct assms])
  finally show ?thesis by (simp add: leading_space_def)
qed

lemma TrimLeftSpace_encoding:
  assumes "e \<in> set space_encodings"
  shows "TrimLeftSpace (e @ s) = TrimLeftSpace s"
proof -
  have "leading_space (e @ s) = length e" by (rule leading_space_encoding [OF assms])
  moreover have "length e \<noteq> 0" using encodings_not_empty assms by simp
  ultimately show ?thesis by (subst TrimLeftSpace.simps) simp
qed

lemma TrimSpace_only_white_space:
  assumes "only_white_space s"
  shows "TrimSpace s = []"
proof -
  from assms have "TrimLeftSpace s = []"
  proof (induction rule: only_white_space.induct)
    case empty
    have "leading_space [] = 0" by code_simp
    then show ?case by (subst TrimLeftSpace.simps) simp
  next
    case (space e s)
    then show ?case by (simp add: TrimLeftSpace_encoding)
  qed
  moreover have "TrimRightSpace [] = []" by code_simp
  ultimately show ?thesis by (simp add: TrimSpace_def)
qed

subsection \<open>The stack check, continued\<close>

text \<open>
  Claim C6. When the configured stack id is empty or consists only of white space, a run
  that has its archive stream makes no step of the stack check: the first entry is not
  decoded, the reader is not restored, no payload is read or parsed. The run goes from
  the stream straight to the extraction, whatever the archive holds.
\<close>

theorem blank_stack_id_skips_check:
  assumes "has_stream w conf cacheReader cacheURI"
    and "only_white_space (StackID conf)"
  shows "filter is_check (fst (main w)) = [] \<and>
         ExtractCacheArchive \<in> set (fst (main w)) \<and>
         fst (main w) = before_check w conf cacheReader @ fst (main_extract w cacheURI) \<and>
         snd (main w) =
           (case snd (main_extract w cacheURI) of Inl out \<Rightarrow> out | Inr _ \<Rightarrow> Returned)"
proof -
  have "TrimSpace (StackID conf) = []" by (rule TrimSpace_only_white_space [OF assms(2)])
  then have c: "main_stack_check w conf = ([], Inr ())"
    by (simp add: main_stack_check_def Let_def)
  then have "snd (main_stack_check w conf) = Inr ()" by simp
  note g = main_goes_on [OF assms(1) this]
  have "filter is_check (before_check w conf cacheReader) = []"
    using before_check_neutral [of w conf cacheReader] by (simp add: neutral_def)
  with g c main_extract_starts [of w cacheURI] show ?thesis by simp
qed

theorem blank_stack_id_skips_check_witness:
  "only_white_space (StackID blank_stack_conf) \<and>
   filter is_check (fst (main blank_stack_world)) = [] \<and>
   ExtractCacheArchive \<in> set (fst (main blank_stack_world))"
proof -
  have "only_white_space ([CHR 0x20] @ [CHR 0x09] @ [CHR 0xC2, CHR 0xA0] @ [])"
    by (intro only_white_space.intros) (simp_all add: space_encodings_def)
  then have b: "only_white_space (StackID blank_stack_conf)"
    by (simp add: blank_stack_conf_def)
  from blank_stack_id_skips_check [OF has_stream_blank b] b show ?thesis by blast
qed


text \<open>
  Claim C7. With a configured stack id and a first entry decoded, the payload of the
  entry is read for the stack id if and only if \<^verbatim>\<open>filepath.Base\<close> of the entry's
  name is \<^verbatim>\<open>archive_info.json\<close>; in particular it is read whatever directory the
  name puts in front of \<^verbatim>\<open>/archive_info.json\<close>.
\<close>

theorem metadata_entry_recognition:
  assumes "has_stream w conf cacheReader cacheURI"
    and "TrimSpace (StackID conf) \<noteq> []"
    and "readFirstEntry w = Inr hdr"
  shows "(ReadAll FirstEntry \<in> set (fst (main w)) \<longleftrightarrow> Base (Name hdr) = ''archive_info.json'') \<and>
         (Name hdr = dir @ ''/archive_info.json'' \<longrightarrow> ReadAll FirstEntry \<in> set (fst (main w)))"
proof -
  have e: "ReadAll FirstEntry \<in> set (fst (main_stack_check w conf))
             \<longleftrightarrow> Base (Name hdr) = ''archive_info.json''"
    using assms(2,3)
    by (auto simp: main_stack_check_def Let_def split: prod.splits option.splits)
  have n: "ReadAll FirstEntry \<notin> set (before_check w conf cacheReader)"
    using neutralD [OF before_check_neutral [of w conf cacheReader], of "ReadAll FirstEntry"]
    by auto
  have "\<forall>e \<in> set (fst (main_extract w cacheURI)). \<not> is_check e"
    using main_extract_no_check [of w cacheURI] by (simp only: filter_empty_conv)
  then have x: "ReadAll FirstEntry \<notin> set (fst (main_extract w cacheURI))" by auto
  have m: "ReadAll FirstEntry \<in> set (fst (main w))
             \<longleftrightarrow> Base (Name hdr) = ''archive_info.json''"
  proof (cases "snd (main_stack_check w conf)")
    case (Inl out)
    from main_stops_in_check [OF assms(1) Inl] e n show ?thesis by simp
  next
    case (Inr u)
    from main_goes_on(1) [OF assms(1) Inr] e n x show ?thesis by simp
  qed
  have "Base (dir @ ''/archive_info.json'') = ''archive_info.json''"
    by (simp add: Base_def strip_trailing_slashes_def last_element_def)
  with m show ?thesis by auto
qed

theorem metadata_entry_recognition_witness:
  "Base ''./cache/archive_info.json'' = ''archive_info.json'' \<and>
   ReadAll FirstEntry \<in> set (fst (main nested_info_world)) \<and>
   Base ''Users/vagrant/cache/data.bin'' \<noteq> ''archive_info.json'' \<and>
   ReadAll FirstEntry \<notin> set (fst (main no_info_world))"
proof -
  let ?nested = "\<lparr>Name = ''./cache/archive_info.json'',
                   Payload_ReadAll = (''{\"stack_id\":\"osx-xcode\"}'', None)\<rparr>"
  let ?data = "\<lparr>Name = ''Users/vagrant/cache/data.bin'', Payload_ReadAll = ([], None)\<rparr>"
  have t: "TrimSpace (StackID local_conf) \<noteq> []" by (simp add: TrimSpace_local_conf)
  have b: "Base ''./cache/archive_info.json'' = ''archive_info.json''" by code_simp
  have s1: "has_stream nested_info_world local_conf ArchiveFile ''file:///tmp/cache.tar.gz''"
    unfolding nested_info_world_def by (rule has_stream_with_entry)
  have r1: "readFirstEntry nested_info_world = Inr ?nested"
    by (simp add: nested_info_world_def with_entry_def)
  have s2: "has_stream no_info_world local_conf ArchiveFile ''file:///tmp/cache.tar.gz''"
    unfolding no_info_world_def by (rule has_stream_with_entry)
  have r2: "readFirstEntry no_info_world = Inr ?data"
    by (simp add: no_info_world_def with_entry_def)
  have 1: "ReadAll FirstEntry \<in> set (fst (main nested_info_world))"
    using metadata_entry_recognition [OF s1 t r1, of "''./cache''"] b by simp
  have 2: "ReadAll FirstEntry \<notin> set (fst (main no_info_world))"
    using metadata_entry_recognition [OF s2 t r2] by (simp add: Base_data)
  from 1 2 b Base_data show ?thesis by simp
qed

lemma has_stream_local_world:
  "has_stream local_world local_conf ArchiveFile ''file:///tmp/cache.tar.gz''"
  using has_stream_local [of local_world local_conf] local_url
  by (simp add: local_world_def local_conf_def)

lemma check_passes:
  assumes "TrimSpace (StackID conf) \<noteq> []"
    and "readFirstEntry w = Inr hdr"
    and "Base (Name hdr) = ''archive_info.json''"
    and "Payload_ReadAll hdr = (b, None)"
    and "parseStackID b = (TrimSpace (StackID conf), None)"
  shows "snd (main_stack_check w conf) = Inr ()"
  using assms by (simp add: main_stack_check_def Let_def)

lemma check_stops:
  assumes "TrimSpace (StackID conf) \<noteq> []"
    and "readFirstEntry w = Inr hdr"
    and "Base (Name hdr) = ''archive_info.json''"
    and "Payload_ReadAll hdr = (b, None)"
    and "parseStackID b = (archiveStackID, None)"
    and "archiveStackID \<noteq> TrimSpace (StackID conf)"
  shows "snd (main_stack_check w conf) = Inl (Exit 0)"
  using assms by (simp add: main_stack_check_def Let_def)

text \<open>
  Claim C10. The archive's stack id, as \<^verbatim>\<open>parseStackID\<close> returns it, is compared
  byte for byte with the configured stack id after \<^verbatim>\<open>strings.TrimSpace\<close>: only the
  configured side is trimmed. When the two are equal the run goes on to the extraction;
  when they differ the run ends with \<^verbatim>\<open>os.Exit(0)\<close> and extracts nothing, also when
  the archive's id differs from the configured one only by white space around it or only
  by the case of its letters.
\<close>

theorem stack_id_comparison:
  assumes "has_stream w conf cacheReader cacheURI"
    and "TrimSpace (StackID conf) \<noteq> []"
    and "readFirstEntry w = Inr hdr"
    and "Base (Name hdr) = ''archive_info.json''"
    and "Payload_ReadAll hdr = (b, None)"
    and "parseStackID b = (archiveStackID, None)"
  shows "(archiveStackID = TrimSpace (StackID conf) \<longrightarrow>
            ExtractCacheArchive \<in> set (fst (main w))) \<and>
         (archiveStackID \<noteq> TrimSpace (StackID conf) \<longrightarrow>
            snd (main w) = Exit 0 \<and> filter is_extraction (fst (main w)) = []) \<and>
         (TrimSpace archiveStackID = TrimSpace (StackID conf) \<and>
          TrimSpace archiveStackID \<noteq> archiveStackID \<longrightarrow>
            snd (main w) = Exit 0 \<and> filter is_extraction (fst (main w)) = []) \<and>
         (map upper archiveStackID = map upper (TrimSpace (StackID conf)) \<and>
          archiveStackID \<noteq> TrimSpace (StackID conf) \<longrightarrow>
            snd (main w) = Exit 0 \<and> filter is_extraction (fst (main w)) = [])"
proof -
  have same: "ExtractCacheArchive \<in> set (fst (main w))"
    if "archiveStackID = TrimSpace (StackID conf)"
  proof -
    from that assms(6) have "parseStackID b = (TrimSpace (StackID conf), None)" by simp
    from check_passes [OF assms(2-5) this]
    have "fst (main w) =
            before_check w conf cacheReader @ fst (main_stack_check w conf) @
            fst (main_extract w cacheURI)"
      by (rule main_goes_on(1) [OF assms(1)])
    with main_extract_starts [of w cacheURI] show ?thesis by simp
  qed
  have other: "snd (main w) = Exit 0 \<and> filter is_extraction (fst (main w)) = []"
    if "archiveStackID \<noteq> TrimSpace (StackID conf)"
    using fatal_in_check [OF assms(1) check_stops [OF assms(2-6) that]] .
  from same other show ?thesis by auto
qed

lemma parse_padded:
  "parseStackID ''{\"stack_id\":\" osx-xcode \"}'' = ('' osx-xcode '', None)"
  by code_simp

lemma parse_upper_case:
  "parseStackID ''{\"stack_id\":\"OSX-XCODE\"}'' = (''OSX-XCODE'', None)"
  by code_simp

lemma upper_osx: "map upper ''osx-xcode'' = ''OSX-XCODE'' \<and> map upper ''OSX-XCODE'' = ''OSX-XCODE''"
  by code_simp

theorem stack_id_comparison_witness:
  "StackID local_conf = '' osx-xcode '' \<and>
   parseStackID ''{\"stack_id\":\"osx-xcode\"}'' = (''osx-xcode'', None) \<and>
   ExtractCacheArchive \<in> set (fst (main local_world)) \<and>
   parseStackID ''{\"stack_id\":\" osx-xcode \"}'' = ('' osx-xcode '', None) \<and>
   snd (main padded_archive_world) = Exit 0 \<and>
   filter is_extraction (fst (main padded_archive_world)) = [] \<and>
   parseStackID ''{\"stack_id\":\"OSX-XCODE\"}'' = (''OSX-XCODE'', None) \<and>
   snd (main upper_case_archive_world) = Exit 0 \<and>
   filter is_extraction (fst (main upper_case_archive_world)) = []"
proof -
  have t: "TrimSpace (StackID local_conf) \<noteq> []" by (simp add: TrimSpace_local_conf)
  have n: "Base (Name (info_entry p)) = ''archive_info.json''" for p
    by (simp add: info_entry_def Base_info)
  have p: "Payload_ReadAll (info_entry p) = (p, None)" for p
    by (simp add: info_entry_def)
  have r0: "readFirstEntry local_world = Inr (info_entry ''{\"stack_id\":\"osx-xcode\"}'')"
    by (simp add: local_world_def)
  have s1: "has_stream padded_archive_world local_conf ArchiveFile ''file:///tmp/cache.tar.gz''"
    unfolding padded_archive_world_def by (rule has_stream_with_entry)
  have r1: "readFirstEntry padded_archive_world
              = Inr (info_entry ''{\"stack_id\":\" osx-xcode \"}'')"
    by (simp add: padded_archive_world_def with_entry_def)
  have s2: "has_stream upper_case_archive_world local_conf ArchiveFile
              ''file:///tmp/cache.tar.gz''"
    unfolding upper_case_archive_world_def by (rule has_stream_with_entry)
  have r2: "readFirstEntry upper_case_archive_world
              = Inr (info_entry ''{\"stack_id\":\"OSX-XCODE\"}'')"
    by (simp add: upper_case_archive_world_def with_entry_def)
  have 0: "ExtractCacheArchive \<in> set (fst (main local_world))"
    using stack_id_comparison [OF has_stream_local_world t r0 n p parse_osx]
    by (simp add: TrimSpace_local_conf)
  have 1: "snd (main padded_archive_world) = Exit 0 \<and>
           filter is_extraction (fst (main padded_archive_world)) = []"
    using stack_id_comparison [OF s1 t r1 n p parse_padded]
    by (simp add: TrimSpace_local_conf TrimSpace_local)
  have 2: "snd (main upper_case_archive_world) = Exit 0 \<and>
           filter is_extraction (fst (main upper_case_archive_world)) = []"
    using stack_id_comparison [OF s2 t r2 n p parse_upper_case] upper_osx
    by (simp add: TrimSpace_local_conf)
  from 0 1 2 parse_osx parse_padded parse_upper_case show ?thesis
    by (simp add: local_conf_def)
qed

subsection \<open>The place of \<^verbatim>\<open>Restore\<close> in a run\<close>

lemma check_shape:
  assumes "TrimSpace (StackID conf) \<noteq> []"
    and "readFirstEntry w = Inr hdr"
  shows "\<exists>rest. fst (main_stack_check w conf) =
            [Println, Log Infof (S ''Checking archive and current stacks'') [],
             Log Printf (S ''current stack id: %s'') [S (TrimSpace (StackID conf))],
             ReadFirstEntry, Restore] @ rest \<and>
           Restore \<notin> set rest \<and> ReadFirstEntry \<notin> set rest \<and>
           (Base (Name hdr) = ''archive_info.json'' \<longrightarrow>
              (\<exists>rest'. rest = ReadAll FirstEntry # rest'))"
  using assms
  by (simp add: main_stack_check_def Let_def split: prod.splits option.splits)

text \<open>
  Claim C1, as amended. With a configured stack id and a first entry decoded without
  error, \<^verbatim>\<open>Restore\<close> is called exactly once, right after \<^verbatim>\<open>readFirstEntry\<close> has
  returned; nothing of the stack check and no extraction comes before the two. The
  payload of the metadata entry is read next, after \<^verbatim>\<open>Restore\<close>, and so is all that
  follows: the parsing, the comparison and the extraction.
\<close>

theorem restore_follows_readFirstEntry:
  assumes "has_stream w conf cacheReader cacheURI"
    and "TrimSpace (StackID conf) \<noteq> []"
    and "readFirstEntry w = Inr hdr"
  shows "\<exists>pre post. fst (main w) = pre @ [ReadFirstEntry, Restore] @ post \<and>
           neutral pre \<and> Restore \<notin> set post \<and> ReadFirstEntry \<notin> set post \<and>
           (Base (Name hdr) = ''archive_info.json'' \<longrightarrow>
              (\<exists>post'. post = ReadAll FirstEntry # post'))"
proof -
  let ?logs = "[Println, Log Infof (S ''Checking archive and current stacks'') [],
                Log Printf (S ''current stack id: %s'') [S (TrimSpace (StackID conf))]]"
  from check_shape [OF assms(2,3)] obtain rest where
    c: "fst (main_stack_check w conf) = ?logs @ [ReadFirstEntry, Restore] @ rest"
    and r: "Restore \<notin> set rest" "ReadFirstEntry \<notin> set rest"
    and b: "Base (Name hdr) = ''archive_info.json'' \<longrightarrow> (\<exists>rest'. rest = ReadAll FirstEntry # rest')"
    by auto
  have "\<forall>e \<in> set (fst (main_extract w cacheURI)). \<not> is_check e"
    using main_extract_no_check [of w cacheURI] by (simp only: filter_empty_conv)
  then have x: "Restore \<notin> set (fst (main_extract w cacheURI))"
    "ReadFirstEntry \<notin> set (fst (main_extract w cacheURI))"
    by auto
  let ?pre = "before_check w conf cacheReader @ ?logs"
  have n: "neutral ?pre" by simp
  show ?thesis
  proof (cases "snd (main_stack_check w conf)")
    case (Inl out)
    from main_stops_in_check [OF assms(1) Inl] c
    have "fst (main w) = ?pre @ [ReadFirstEntry, Restore] @ rest" by simp
    with n r b show ?thesis by blast
  next
    case (Inr u)
    from main_goes_on(1) [OF assms(1) Inr] c
    have m: "fst (main w) = ?pre @ [ReadFirstEntry, Restore] @ (rest @ fst (main_extract w cacheURI))"
      by simp
    have "Restore \<notin> set (rest @ fst (main_extract w cacheURI))"
      "ReadFirstEntry \<notin> set (rest @ fst (main_extract w cacheURI))"
      using r x by simp_all
    moreover have "Base (Name hdr) = ''archive_info.json'' \<longrightarrow>
        (\<exists>post'. rest @ fst (main_extract w cacheURI) = ReadAll FirstEntry # post')"
      using b by auto
    ultimately show ?thesis using n m by blast
  qed
qed

theorem restore_follows_readFirstEntry_witness:
  "TrimSpace (StackID local_conf) = ''osx-xcode'' \<and>
   (\<exists>pre post. fst (main local_world) = pre @ [ReadFirstEntry, Restore] @ post \<and>
      neutral pre \<and> Restore \<notin> set post \<and> ReadFirstEntry \<notin> set post \<and>
      (\<exists>post'. post = ReadAll FirstEntry # post'))"
proof -
  have t: "TrimSpace (StackID local_conf) \<noteq> []" by (simp add: TrimSpace_local_conf)
  have r: "readFirstEntry local_world = Inr (info_entry ''{\"stack_id\":\"osx-xcode\"}'')"
    by (simp add: local_world_def)
  have n: "Base (Name (info_entry ''{\"stack_id\":\"osx-xcode\"}'')) = ''archive_info.json''"
    by (simp add: info_entry_def Base_info)
  from restore_follows_readFirstEntry [OF has_stream_local_world t r] n TrimSpace_local_conf
  show ?thesis by simp
qed

text \<open>
  Claim C1, as stated: \<^verbatim>\<open>Restore\<close> only after the payload of the first entry has been
  read and checked. In the local run, whose stack id is configured, \<^verbatim>\<open>Restore\<close> comes
  before the payload is read.
\<close>

theorem restore_before_payload_counterexample:
  "TrimSpace (StackID local_conf) \<noteq> [] \<and>
   \<not> only_after (\<lambda>e. e = ReadAll FirstEntry) (\<lambda>e. e = Restore) (fst (main local_world))"
  by code_simp

subsection \<open>\<^verbatim>\<open>parseStackID\<close>, the contract\<close>

lemma store_string_error:
  "snd (store_string v (field, saved)) = None \<longleftrightarrow> saved = None \<and> \<not> wrong_type v"
  by (cases v) (auto simp: saveError_def split: option.splits)

lemma store_member_error:
  "snd (store_member name (field, saved) m) = None
     \<longleftrightarrow> saved = None \<and> \<not> (is_field name (fst m) \<and> wrong_type (snd m))"
  by (simp add: store_member_def store_string_error)

lemma foldl_store_member_error:
  "snd (foldl (store_member name) (field, saved) ms) = None
     \<longleftrightarrow> saved = None \<and> \<not> list_ex (\<lambda>m. is_field name (fst m) \<and> wrong_type (snd m)) ms"
proof (induction ms arbitrary: field saved)
  case Nil
  show ?case by simp
next
  case (Cons m ms)
  obtain field' saved' where s: "store_member name (field, saved) m = (field', saved')"
    by (cases "store_member name (field, saved) m")
  from store_member_error [of name field saved m] s
  have "saved' = None \<longleftrightarrow> saved = None \<and> \<not> (is_field name (fst m) \<and> wrong_type (snd m))"
    by simp
  with Cons.IH [of field' saved'] s show ?case by auto
qed

lemma foldl_store_member_absent:
  "\<forall>m \<in> set ms. \<not> is_field name (fst m) \<Longrightarrow> foldl (store_member name) acc ms = acc"
  by (induction ms arbitrary: acc) (simp_all add: store_member_def)

lemma store_struct_error:
  "snd (store_struct name v field) = None \<longleftrightarrow> \<not> type_mismatch name v"
  by (cases v) (simp_all add: foldl_store_member_error)

text \<open>
  Claim C8, as amended. \<^verbatim>\<open>parseStackID\<close> returns an error if and only if the bytes
  are not valid JSON, or the JSON value is neither an object nor \<^verbatim>\<open>null\<close>, or a
  member whose key stands for \<^verbatim>\<open>stack_id\<close> holds a value that is neither a string
  nor \<^verbatim>\<open>null\<close>. With an error the returned string is empty. On a valid JSON object
  with no member for \<^verbatim>\<open>stack_id\<close>, and on \<^verbatim>\<open>null\<close>, it returns the empty string
  and no error.
\<close>

theorem parseStackID_contract:
  "(snd (parseStackID b) \<noteq> None
      \<longleftrightarrow> \<not> Valid b \<or> type_mismatch ''stack_id'' (snd (checkValid b))) \<and>
   (snd (parseStackID b) \<noteq> None \<longrightarrow> fst (parseStackID b) = []) \<and>
   (Valid b \<and> snd (checkValid b) = JObject ms \<and> (\<forall>m \<in> set ms. \<not> is_field ''stack_id'' (fst m))
      \<longrightarrow> parseStackID b = ([], None)) \<and>
   (Valid b \<and> snd (checkValid b) = JNull \<longrightarrow> parseStackID b = ([], None))"
proof -
  obtain e v where c: "checkValid b = (e, v)" by (cases "checkValid b")
  show ?thesis
  proof (cases e)
    case (Some err)
    with c show ?thesis by (simp add: parseStackID_def Unmarshal_def Valid_def)
  next
    case None
    obtain field saved where s: "store_struct ''stack_id'' v [] = (field, saved)"
      by (cases "store_struct ''stack_id'' v []")
    from store_struct_error [of "''stack_id''" v "[]"] s
    have m: "saved = None \<longleftrightarrow> \<not> type_mismatch ''stack_id'' v" by simp
    have p: "parseStackID b = (case saved of Some x \<Rightarrow> ([], Some x) | None \<Rightarrow> (field, None))"
      using c None s by (simp add: parseStackID_def Unmarshal_def)
    have a: "parseStackID b = ([], None)"
      if "v = JObject ms" "\<forall>m \<in> set ms. \<not> is_field ''stack_id'' (fst m)"
      using that s p by (simp add: foldl_store_member_absent)
    have n: "parseStackID b = ([], None)" if "v = JNull"
      using that s p by simp
    from c None m p a n show ?thesis
      by (auto simp: Valid_def split: option.splits)
  qed
qed

lemma valid_json_samples:
  "Valid ''{\"stack_id\":5}'' \<and> Valid ''[]'' \<and> Valid ''{\"os\":\"osx\"}''"
  by code_simp

lemma parse_number: "parseStackID ''{\"stack_id\":5}'' = ([], Some (UnmarshalTypeError ''number''))"
  by code_simp

lemma parse_array: "parseStackID ''[]'' = ([], Some (UnmarshalTypeError ''array''))"
  by code_simp

lemma check_other_member: "checkValid ''{\"os\":\"osx\"}'' = (None, JObject [(''os'', JString ''osx'')])"
  by code_simp

lemma os_is_not_stack_id: "\<not> is_field ''stack_id'' ''os''"
  by code_simp

theorem parseStackID_contract_witness:
  "Valid ''{\"os\":\"osx\"}'' \<and> parseStackID ''{\"os\":\"osx\"}'' = ([], None) \<and>
   Valid ''{\"stack_id\":5}'' \<and> fst (parseStackID ''{\"stack_id\":5}'') = [] \<and>
   type_mismatch ''stack_id'' (snd (checkValid ''{\"stack_id\":5}''))"
proof -
  have 1: "parseStackID ''{\"os\":\"osx\"}'' = ([], None)"
    using parseStackID_contract [of "''{\"os\":\"osx\"}''" "[(''os'', JString ''osx'')]"]
      valid_json_samples check_other_member os_is_not_stack_id
    by simp
  have 2: "fst (parseStackID ''{\"stack_id\":5}'') = [] \<and>
           type_mismatch ''stack_id'' (snd (checkValid ''{\"stack_id\":5}''))"
    using parseStackID_contract [of "''{\"stack_id\":5}''"] valid_json_samples parse_number
    by simp
  from 1 2 valid_json_samples show ?thesis by simp
qed

text \<open>
  Claim C8, as stated: an error if and only if the bytes are not valid JSON, and the empty
  string with no error on valid JSON without the field. The object with the number 5
  under \<^verbatim>\<open>stack_id\<close> is valid JSON and gives an error; the empty array is valid JSON
  without the field and gives an error too.
\<close>

theorem parseStackID_error_on_valid_json_counterexample:
  "Valid ''{\"stack_id\":5}'' \<and>
   \<not> (snd (parseStackID ''{\"stack_id\":5}'') \<noteq> None \<longleftrightarrow> \<not> Valid ''{\"stack_id\":5}'') \<and>
   Valid ''[]'' \<and> parseStackID ''[]'' \<noteq> ([], None)"
  using valid_json_samples parse_number parse_array by simp

end
